theory Spec2Isabelle
  imports Main
begin

section \<open>Errors of the client\<close>

text \<open>
  \<^verbatim>\<open>client.go\<close>, type \<^verbatim>\<open>Error\<close>: the message \<^verbatim>\<open>msg\<close>, the code \<^verbatim>\<open>Code\<close> and the
  metadata \<^verbatim>\<open>Meta map[string]string\<close>.  A Go map that is \<^verbatim>\<open>nil\<close> reads like the empty
  map, so an error built without \<^verbatim>\<open>Meta\<close> carries \<open>Map.empty\<close>.
\<close>

record Error =
  msg :: string
  Code :: string
  Meta :: "string \<rightharpoonup> string"

text \<open>
  The values of Go's \<^verbatim>\<open>error\<close> interface that the client can return: its own
  \<^verbatim>\<open>*Error\<close>, the two errors of \<^verbatim>\<open>encoding/json\<close> that \<^verbatim>\<open>json.Unmarshal\<close> gives for a
  non-nil pointer (\<^verbatim>\<open>*json.SyntaxError\<close> with its message, \<^verbatim>\<open>*json.UnmarshalTypeError\<close>
  with the kind of JSON value and the Go field it did not fit), and errors of the
  libraries underneath (reading the body, parsing a URL, building a request, encoding a
  body), which the client passes on as they are.
\<close>

datatype go_error =
    TableauError Error
  | SyntaxError string
  | UnmarshalTypeError string string
  | LibraryError string

definition ErrCodeInternal :: string where
  "ErrCodeInternal = ''-1''"

definition jsonMediaType :: string where
  "jsonMediaType = ''application/json''"

definition libraryVersion :: string where
  "libraryVersion = ''v0.0.1''"

definition userAgent :: string where
  "userAgent = ''go-tableau/'' @ libraryVersion"

section \<open>The JSON scanner of \<^verbatim>\<open>encoding/json\<close>\<close>

text \<open>
  \<^verbatim>\<open>json.Unmarshal\<close> first runs \<^verbatim>\<open>checkValid\<close>, a byte-at-a-time state machine
  (\<^verbatim>\<open>scanner.go\<close>), and reports a \<^verbatim>\<open>*SyntaxError\<close> when the input is not one JSON value.
  The machine is embedded state by state.  A step function of the scanner is a
  constructor of \<open>step_fn\<close>; \<open>run_step\<close> dispatches on it.  The stack
  \<^verbatim>\<open>parseState\<close> is kept with its top first.  The byte offset of a syntax error is not
  kept: \<^verbatim>\<open>SyntaxError.Error()\<close> prints the message only.
\<close>

datatype scan_op =
    scanContinue | scanBeginLiteral | scanBeginObject | scanObjectKey
  | scanObjectValue | scanEndObject | scanBeginArray | scanArrayValue
  | scanEndArray | scanSkipSpace | scanEnd | scanError

datatype parse_state = parseObjectKey | parseObjectValue | parseArrayValue

datatype step_fn =
    StBeginValueOrEmpty | StBeginValue | StBeginStringOrEmpty | StBeginString
  | StEndValue | StEndTop | StInString | StInStringEsc
  | StInStringEscU | StInStringEscU1 | StInStringEscU12 | StInStringEscU123
  | StNeg | St1 | St0 | StDot | StDot0 | StE | StESign | StE0
  | StT | StTr | StTru | StF | StFa | StFal | StFals | StN | StNu | StNul
  | StError

record scanner =
  step :: step_fn
  endTop :: bool
  parseState :: "parse_state list"
  err :: "string option"

definition maxNestingDepth :: nat where
  "maxNestingDepth = 10000"

definition byte :: "char \<Rightarrow> nat" where
  "byte c = of_char c"

definition isSpace :: "char \<Rightarrow> bool" where
  "isSpace c = (byte c = 32 \<or> byte c = 9 \<or> byte c = 13 \<or> byte c = 10)"

definition isDigit :: "char \<Rightarrow> bool" where
  "isDigit c = (48 \<le> byte c \<and> byte c \<le> 57)"

definition isDigit19 :: "char \<Rightarrow> bool" where
  "isDigit19 c = (49 \<le> byte c \<and> byte c \<le> 57)"

definition isHex :: "char \<Rightarrow> bool" where
  "isHex c = (isDigit c \<or> (97 \<le> byte c \<and> byte c \<le> 102) \<or> (65 \<le> byte c \<and> byte c \<le> 70))"

definition lowerhex :: "nat \<Rightarrow> char" where
  "lowerhex n = ''0123456789abcdef'' ! (n mod 16)"

text \<open>
  \<^verbatim>\<open>quoteChar\<close> formats the offending byte for the message: \<^verbatim>\<open>strconv.Quote\<close> of the
  one-rune string \<^verbatim>\<open>string(c)\<close>, between single quotes instead of double ones, with the
  two quote characters as special cases.  For a rune up to \<^verbatim>\<open>0xFF\<close>, \<^verbatim>\<open>strconv.Quote\<close>
  escapes the backslash, prints what \<^verbatim>\<open>strconv.IsPrint\<close> accepts (as UTF-8), and
  otherwise writes a named escape, \<^verbatim>\<open>\x\<close> with two digits below the space and for
  \<^verbatim>\<open>0x7f\<close>, or \<^verbatim>\<open>\u\<close> with four digits.
\<close>

definition quoteChar :: "char \<Rightarrow> string" where
  "quoteChar c =
    (let n = byte c; bs = CHR 0x5C in
     if n = 39 then [CHR 0x27, bs, CHR 0x27, CHR 0x27]
     else if n = 34 then [CHR 0x27, CHR 0x22, CHR 0x27]
     else [CHR 0x27] @
       (if n = 92 then [bs, bs]
        else if (32 \<le> n \<and> n \<le> 126) then [c]
        else if (161 \<le> n \<and> n \<noteq> 173) then [char_of (192 + n div 64), char_of (128 + n mod 64)]
        else if n = 7 then [bs, CHR ''a'']
        else if n = 8 then [bs, CHR ''b'']
        else if n = 12 then [bs, CHR ''f'']
        else if n = 10 then [bs, CHR ''n'']
        else if n = 13 then [bs, CHR ''r'']
        else if n = 9 then [bs, CHR ''t'']
        else if n = 11 then [bs, CHR ''v'']
        else if n < 32 \<or> n = 127 then [bs, CHR ''x'', lowerhex (n div 16), lowerhex n]
        else [bs, CHR ''u'', CHR ''0'', CHR ''0'', lowerhex (n div 16), lowerhex n])
       @ [CHR 0x27])"

definition scan_error :: "scanner \<Rightarrow> char \<Rightarrow> string \<Rightarrow> scanner \<times> scan_op" where
  "scan_error s c ctx =
    (s\<lparr>step := StError,
       err := Some (''invalid character '' @ quoteChar c @ '' '' @ ctx)\<rparr>, scanError)"

definition pushParseState ::
  "scanner \<Rightarrow> char \<Rightarrow> parse_state \<Rightarrow> scan_op \<Rightarrow> scanner \<times> scan_op" where
  "pushParseState s c newParseState successState =
    (let s' = s\<lparr>parseState := newParseState # parseState s\<rparr> in
     if length (parseState s') \<le> maxNestingDepth then (s', successState)
     else scan_error s' c ''exceeded max depth'')"

definition popParseState :: "scanner \<Rightarrow> scanner" where
  "popParseState s =
    (let ps = tl (parseState s) in
     if ps = [] then s\<lparr>parseState := ps, step := StEndTop, endTop := True\<rparr>
     else s\<lparr>parseState := ps, step := StEndValue\<rparr>)"

definition stateEndTop :: "scanner \<Rightarrow> char \<Rightarrow> scanner \<times> scan_op" where
  "stateEndTop s c =
    (if \<not> isSpace c then (fst (scan_error s c ''after top-level value''), scanEnd)
     else (s, scanEnd))"

definition stateEndValue :: "scanner \<Rightarrow> char \<Rightarrow> scanner \<times> scan_op" where
  "stateEndValue s c =
    (case parseState s of
       [] \<Rightarrow> stateEndTop (s\<lparr>step := StEndTop, endTop := True\<rparr>) c
     | ps # rest \<Rightarrow>
        if isSpace c then (s\<lparr>step := StEndValue\<rparr>, scanSkipSpace)
        else (case ps of
           parseObjectKey \<Rightarrow>
             if c = CHR '':'' then
               (s\<lparr>parseState := parseObjectValue # rest, step := StBeginValue\<rparr>, scanObjectKey)
             else scan_error s c ''after object key''
         | parseObjectValue \<Rightarrow>
             if c = CHR '','' then
               (s\<lparr>parseState := parseObjectKey # rest, step := StBeginString\<rparr>, scanObjectValue)
             else if c = CHR ''}'' then (popParseState s, scanEndObject)
             else scan_error s c ''after object key:value pair''
         | parseArrayValue \<Rightarrow>
             if c = CHR '','' then (s\<lparr>step := StBeginValue\<rparr>, scanArrayValue)
             else if c = CHR '']'' then (popParseState s, scanEndArray)
             else scan_error s c ''after array element''))"

definition stateBeginValue :: "scanner \<Rightarrow> char \<Rightarrow> scanner \<times> scan_op" where
  "stateBeginValue s c =
    (if isSpace c then (s, scanSkipSpace)
     else if c = CHR ''{'' then
       pushParseState (s\<lparr>step := StBeginStringOrEmpty\<rparr>) c parseObjectKey scanBeginObject
     else if c = CHR ''['' then
       pushParseState (s\<lparr>step := StBeginValueOrEmpty\<rparr>) c parseArrayValue scanBeginArray
     else if byte c = 34 then (s\<lparr>step := StInString\<rparr>, scanBeginLiteral)
     else if c = CHR ''-'' then (s\<lparr>step := StNeg\<rparr>, scanBeginLiteral)
     else if c = CHR ''0'' then (s\<lparr>step := St0\<rparr>, scanBeginLiteral)
     else if c = CHR ''t'' then (s\<lparr>step := StT\<rparr>, scanBeginLiteral)
     else if c = CHR ''f'' then (s\<lparr>step := StF\<rparr>, scanBeginLiteral)
     else if c = CHR ''n'' then (s\<lparr>step := StN\<rparr>, scanBeginLiteral)
     else if isDigit19 c then (s\<lparr>step := St1\<rparr>, scanBeginLiteral)
     else scan_error s c ''looking for beginning of value'')"

definition stateBeginValueOrEmpty :: "scanner \<Rightarrow> char \<Rightarrow> scanner \<times> scan_op" where
  "stateBeginValueOrEmpty s c =
    (if isSpace c then (s, scanSkipSpace)
     else if c = CHR '']'' then stateEndValue s c
     else stateBeginValue s c)"

definition stateBeginString :: "scanner \<Rightarrow> char \<Rightarrow> scanner \<times> scan_op" where
  "stateBeginString s c =
    (if isSpace c then (s, scanSkipSpace)
     else if byte c = 34 then (s\<lparr>step := StInString\<rparr>, scanBeginLiteral)
     else scan_error s c ''looking for beginning of object key string'')"

definition stateBeginStringOrEmpty :: "scanner \<Rightarrow> char \<Rightarrow> scanner \<times> scan_op" where
  "stateBeginStringOrEmpty s c =
    (if isSpace c then (s, scanSkipSpace)
     else if c = CHR ''}'' then
       stateEndValue (s\<lparr>parseState := parseObjectValue # tl (parseState s)\<rparr>) c
     else stateBeginString s c)"

definition stateInString :: "scanner \<Rightarrow> char \<Rightarrow> scanner \<times> scan_op" where
  "stateInString s c =
    (if byte c = 34 then (s\<lparr>step := StEndValue\<rparr>, scanContinue)
     else if byte c = 92 then (s\<lparr>step := StInStringEsc\<rparr>, scanContinue)
     else if byte c < 32 then scan_error s c ''in string literal''
     else (s, scanContinue))"

definition stateInStringEsc :: "scanner \<Rightarrow> char \<Rightarrow> scanner \<times> scan_op" where
  "stateInStringEsc s c =
    (if c = CHR ''b'' \<or> c = CHR ''f'' \<or> c = CHR ''n'' \<or> c = CHR ''r'' \<or> c = CHR ''t''
        \<or> byte c = 92 \<or> c = CHR ''/'' \<or> byte c = 34
     then (s\<lparr>step := StInString\<rparr>, scanContinue)
     else if c = CHR ''u'' then (s\<lparr>step := StInStringEscU\<rparr>, scanContinue)
     else scan_error s c ''in string escape code'')"

definition stateInStringEscU_any :: "step_fn \<Rightarrow> scanner \<Rightarrow> char \<Rightarrow> scanner \<times> scan_op" where
  "stateInStringEscU_any nxt s c =
    (if isHex c then (s\<lparr>step := nxt\<rparr>, scanContinue)
     else scan_error s c (''in '' @ [CHR 0x5C] @ ''u hexadecimal character escape''))"

definition state0 :: "scanner \<Rightarrow> char \<Rightarrow> scanner \<times> scan_op" where
  "state0 s c =
    (if c = CHR ''.'' then (s\<lparr>step := StDot\<rparr>, scanContinue)
     else if c = CHR ''e'' \<or> c = CHR ''E'' then (s\<lparr>step := StE\<rparr>, scanContinue)
     else stateEndValue s c)"

definition state1 :: "scanner \<Rightarrow> char \<Rightarrow> scanner \<times> scan_op" where
  "state1 s c =
    (if isDigit c then (s\<lparr>step := St1\<rparr>, scanContinue)
     else state0 s c)"

definition stateNeg :: "scanner \<Rightarrow> char \<Rightarrow> scanner \<times> scan_op" where
  "stateNeg s c =
    (if c = CHR ''0'' then (s\<lparr>step := St0\<rparr>, scanContinue)
     else if isDigit19 c then (s\<lparr>step := St1\<rparr>, scanContinue)
     else scan_error s c ''in numeric literal'')"

definition stateDot :: "scanner \<Rightarrow> char \<Rightarrow> scanner \<times> scan_op" where
  "stateDot s c =
    (if isDigit c then (s\<lparr>step := StDot0\<rparr>, scanContinue)
     else scan_error s c ''after decimal point in numeric literal'')"

definition stateDot0 :: "scanner \<Rightarrow> char \<Rightarrow> scanner \<times> scan_op" where
  "stateDot0 s c =
    (if isDigit c then (s, scanContinue)
     else if c = CHR ''e'' \<or> c = CHR ''E'' then (s\<lparr>step := StE\<rparr>, scanContinue)
     else stateEndValue s c)"

definition stateESign :: "scanner \<Rightarrow> char \<Rightarrow> scanner \<times> scan_op" where
  "stateESign s c =
    (if isDigit c then (s\<lparr>step := StE0\<rparr>, scanContinue)
     else scan_error s c ''in exponent of numeric literal'')"

definition stateE :: "scanner \<Rightarrow> char \<Rightarrow> scanner \<times> scan_op" where
  "stateE s c =
    (if c = CHR ''+'' \<or> c = CHR ''-'' then (s\<lparr>step := StESign\<rparr>, scanContinue)
     else stateESign s c)"

definition stateE0 :: "scanner \<Rightarrow> char \<Rightarrow> scanner \<times> scan_op" where
  "stateE0 s c =
    (if isDigit c then (s, scanContinue)
     else stateEndValue s c)"

text \<open>
  The ten states inside \<^verbatim>\<open>true\<close>, \<^verbatim>\<open>false\<close> and \<^verbatim>\<open>null\<close> differ in the letter they
  expect, the state that follows and the literal named in the message.
\<close>

definition stateLetter ::
  "char \<Rightarrow> step_fn \<Rightarrow> string \<Rightarrow> scanner \<Rightarrow> char \<Rightarrow> scanner \<times> scan_op" where
  "stateLetter want nxt lit s c =
    (if c = want then (s\<lparr>step := nxt\<rparr>, scanContinue)
     else scan_error s c (''in literal '' @ lit @ '' (expecting '' @ [CHR 0x27, want, CHR 0x27] @ '')''))"

definition run_step :: "scanner \<Rightarrow> char \<Rightarrow> scanner \<times> scan_op" where
  "run_step s c =
    (case step s of
       StBeginValueOrEmpty \<Rightarrow> stateBeginValueOrEmpty s c
     | StBeginValue \<Rightarrow> stateBeginValue s c
     | StBeginStringOrEmpty \<Rightarrow> stateBeginStringOrEmpty s c
     | StBeginString \<Rightarrow> stateBeginString s c
     | StEndValue \<Rightarrow> stateEndValue s c
     | StEndTop \<Rightarrow> stateEndTop s c
     | StInString \<Rightarrow> stateInString s c
     | StInStringEsc \<Rightarrow> stateInStringEsc s c
     | StInStringEscU \<Rightarrow> stateInStringEscU_any StInStringEscU1 s c
     | StInStringEscU1 \<Rightarrow> stateInStringEscU_any StInStringEscU12 s c
     | StInStringEscU12 \<Rightarrow> stateInStringEscU_any StInStringEscU123 s c
     | StInStringEscU123 \<Rightarrow> stateInStringEscU_any StInString s c
     | StNeg \<Rightarrow> stateNeg s c
     | St1 \<Rightarrow> state1 s c
     | St0 \<Rightarrow> state0 s c
     | StDot \<Rightarrow> stateDot s c
     | StDot0 \<Rightarrow> stateDot0 s c
     | StE \<Rightarrow> stateE s c
     | StESign \<Rightarrow> stateESign s c
     | StE0 \<Rightarrow> stateE0 s c
     | StT \<Rightarrow> stateLetter CHR ''r'' StTr ''true'' s c
     | StTr \<Rightarrow> stateLetter CHR ''u'' StTru ''true'' s c
     | StTru \<Rightarrow> stateLetter CHR ''e'' StEndValue ''true'' s c
     | StF \<Rightarrow> stateLetter CHR ''a'' StFa ''false'' s c
     | StFa \<Rightarrow> stateLetter CHR ''l'' StFal ''false'' s c
     | StFal \<Rightarrow> stateLetter CHR ''s'' StFals ''false'' s c
     | StFals \<Rightarrow> stateLetter CHR ''e'' StEndValue ''false'' s c
     | StN \<Rightarrow> stateLetter CHR ''u'' StNu ''null'' s c
     | StNu \<Rightarrow> stateLetter CHR ''l'' StNul ''null'' s c
     | StNul \<Rightarrow> stateLetter CHR ''l'' StEndValue ''null'' s c
     | StError \<Rightarrow> (s, scanError))"

definition scanner_reset :: scanner where
  "scanner_reset = \<lparr>step = StBeginValue, endTop = False, parseState = [], err = None\<rparr>"

definition scanner_eof :: "scanner \<Rightarrow> scanner \<times> scan_op" where
  "scanner_eof s =
    (if err s \<noteq> None then (s, scanError)
     else if endTop s then (s, scanEnd)
     else (let s' = fst (run_step s (CHR '' '')) in
       if endTop s' then (s', scanEnd)
       else if err s' = None then (s'\<lparr>err := Some ''unexpected end of JSON input''\<rparr>, scanError)
       else (s', scanError)))"

text \<open>
  \<^verbatim>\<open>checkValid\<close>: the message of the syntax error, or \<open>None\<close> for a valid input.  The
  loop over the bytes stops at the first step that answers \<^verbatim>\<open>scanError\<close>.
\<close>

fun checkValid_loop :: "scanner \<Rightarrow> string \<Rightarrow> string option" where
  "checkValid_loop s [] = err (fst (scanner_eof s))"
| "checkValid_loop s (c # cs) =
    (case run_step s c of
       (s', op) \<Rightarrow> if op = scanError then err s' else checkValid_loop s' cs)"

definition checkValid :: "string \<Rightarrow> string option" where
  "checkValid data = checkValid_loop scanner_reset data"

section \<open>The value a valid JSON text denotes\<close>

datatype json =
    JNull
  | JBool bool
  | JNumber string
  | JString string
  | JArray "json list"
  | JObject "(string \<times> json) list"

text \<open>
  \<^verbatim>\<open>utf8.EncodeRune\<close> and the length of the well-formed UTF-8 sequence at the head of a
  byte string (\<open>0\<close> when \<^verbatim>\<open>utf8.DecodeRune\<close> answers \<^verbatim>\<open>RuneError\<close> with width 1).
\<close>

definition RuneError :: nat where
  "RuneError = 0xFFFD"

definition EncodeRune :: "nat \<Rightarrow> string" where
  "EncodeRune r0 =
    (let r = (if (0xD800 \<le> r0 \<and> r0 < 0xE000) \<or> 0x10FFFF < r0 then RuneError else r0) in
     if r < 0x80 then [char_of r]
     else if r < 0x800 then [char_of (0xC0 + r div 64), char_of (0x80 + r mod 64)]
     else if r < 0x10000 then
       [char_of (0xE0 + r div 4096), char_of (0x80 + (r div 64) mod 64), char_of (0x80 + r mod 64)]
     else
       [char_of (0xF0 + r div 262144), char_of (0x80 + (r div 4096) mod 64),
        char_of (0x80 + (r div 64) mod 64), char_of (0x80 + r mod 64)])"

definition continuation :: "char \<Rightarrow> bool" where
  "continuation c = (0x80 \<le> byte c \<and> byte c \<le> 0xBF)"

definition utf8_width :: "string \<Rightarrow> nat" where
  "utf8_width p =
    (case p of
       [] \<Rightarrow> 0
     | p0 # rest \<Rightarrow>
        (let b = byte p0;
             sz = (if 0xC2 \<le> b \<and> b \<le> 0xDF then 2
                   else if 0xE0 \<le> b \<and> b \<le> 0xEF then 3
                   else if 0xF0 \<le> b \<and> b \<le> 0xF4 then 4 else 0);
             lo = (if b = 0xE0 then 0xA0 else if b = 0xF0 then 0x90 else 0x80);
             hi = (if b = 0xED then 0x9F else if b = 0xF4 then 0x8F else 0xBF)
         in if sz = 0 \<or> length p < sz then 0
            else if byte (p ! 1) < lo \<or> hi < byte (p ! 1) then 0
            else if sz = 2 then 2
            else if \<not> continuation (p ! 2) then 0
            else if sz = 3 then 3
            else if \<not> continuation (p ! 3) then 0
            else 4))"

definition hexval :: "char \<Rightarrow> nat" where
  "hexval c =
    (if isDigit c then byte c - 48
     else if 97 \<le> byte c \<and> byte c \<le> 102 then byte c - 87
     else byte c - 55)"

text \<open>\<^verbatim>\<open>getu4\<close>: the number of a \<^verbatim>\<open>\uXXXX\<close> escape at the head of the bytes, if there is one.\<close>

definition getu4 :: "string \<Rightarrow> nat option" where
  "getu4 s =
    (if length s < 6 \<or> byte (s ! 0) \<noteq> 92 \<or> s ! 1 \<noteq> CHR ''u'' then None
     else if \<not> (isHex (s ! 2) \<and> isHex (s ! 3) \<and> isHex (s ! 4) \<and> isHex (s ! 5)) then None
     else Some (hexval (s ! 2) * 4096 + hexval (s ! 3) * 256 + hexval (s ! 4) * 16 + hexval (s ! 5)))"

definition IsSurrogate :: "nat \<Rightarrow> bool" where
  "IsSurrogate r = (0xD800 \<le> r \<and> r < 0xE000)"

text \<open>\<^verbatim>\<open>utf16.DecodeRune\<close>, with \<open>None\<close> for a second half that \<^verbatim>\<open>getu4\<close> did not find.\<close>

definition utf16_DecodeRune :: "nat \<Rightarrow> nat option \<Rightarrow> nat" where
  "utf16_DecodeRune r1 r2o =
    (case r2o of
       None \<Rightarrow> RuneError
     | Some r2 \<Rightarrow>
        if 0xD800 \<le> r1 \<and> r1 < 0xDC00 \<and> 0xDC00 \<le> r2 \<and> r2 < 0xE000
        then (r1 - 0xD800) * 1024 + (r2 - 0xDC00) + 0x10000
        else RuneError)"

definition escaped :: "char \<Rightarrow> char" where
  "escaped e =
    (if e = CHR ''b'' then CHR 0x08
     else if e = CHR ''f'' then CHR 0x0C
     else if e = CHR ''n'' then CHR 0x0A
     else if e = CHR ''r'' then CHR 0x0D
     else if e = CHR ''t'' then CHR 0x09
     else e)"

text \<open>
  \<^verbatim>\<open>unquoteBytes\<close>, on the bytes between the two quotes of a string literal: escapes are
  replaced, \<^verbatim>\<open>\u\<close> escapes and surrogate pairs become UTF-8, and a byte that does not
  start a well-formed UTF-8 sequence becomes U+FFFD.  Where Go's function reports
  failure (a control character, a bare quote, an unknown escape) the scanner has
  already refused the text; the model copies such a byte.
\<close>

function unquote :: "string \<Rightarrow> string" where
  "unquote [] = []"
| "unquote (c # cs) =
    (if byte c = 92 then
       (case cs of
          [] \<Rightarrow> []
        | e # rest \<Rightarrow>
           if e = CHR ''u'' then
             (case getu4 (c # cs) of
                None \<Rightarrow> e # unquote rest
              | Some rr \<Rightarrow>
                 if IsSurrogate rr then
                   (let dec = utf16_DecodeRune rr (getu4 (drop 4 rest)) in
                    if dec \<noteq> RuneError then EncodeRune dec @ unquote (drop 10 rest)
                    else EncodeRune RuneError @ unquote (drop 4 rest))
                 else EncodeRune rr @ unquote (drop 4 rest))
           else escaped e # unquote rest)
     else if byte c < 0x80 then c # unquote cs
     else (let w = utf8_width (c # cs) in
           if w = 0 then EncodeRune RuneError @ unquote cs
           else c # take (w - 1) cs @ unquote (drop (w - 1) cs)))"
  by pat_completeness auto
termination
  by (relation "measure length") auto

definition literal_value :: "string \<Rightarrow> json" where
  "literal_value item =
    (case item of
       [] \<Rightarrow> JNull
     | c # cs \<Rightarrow>
        if byte c = 34 then JString (unquote (butlast cs))
        else if c = CHR ''t'' then JBool True
        else if c = CHR ''f'' then JBool False
        else if c = CHR ''n'' then JNull
        else JNumber item)"

text \<open>
  Go decodes in a second pass over the text, driven by the same scanner, and stores
  into the target by reflection as it goes.  The model separates the two: the second pass
  builds the value tree of the text, and a function per target type stores that tree
  (see \<open>Unmarshal\<close>).  The pass keeps the bytes of the literal it is reading
  (\<open>item\<close>), the arrays and objects that are still open (\<open>frames\<close>, innermost first;
  an object frame holds its finished members and a key that waits for its value) and the
  finished top-level value.
\<close>

datatype frame =
    ObjectFrame "(string \<times> json) list" "string option"
  | ArrayFrame "json list"

record decodeState =
  scan :: scanner
  item :: "string option"
  frames :: "frame list"
  top :: "json option"

definition deliver :: "json \<Rightarrow> decodeState \<Rightarrow> decodeState" where
  "deliver v d =
    (case frames d of
       [] \<Rightarrow> d\<lparr>top := Some v\<rparr>
     | ArrayFrame vs # fs \<Rightarrow> d\<lparr>frames := ArrayFrame (vs @ [v]) # fs\<rparr>
     | ObjectFrame kvs (Some k) # fs \<Rightarrow> d\<lparr>frames := ObjectFrame (kvs @ [(k, v)]) None # fs\<rparr>
     | ObjectFrame kvs None # fs \<Rightarrow>
        (case v of
           JString k \<Rightarrow> d\<lparr>frames := ObjectFrame kvs (Some k) # fs\<rparr>
         | _ \<Rightarrow> d))"

definition end_literal :: "decodeState \<Rightarrow> decodeState" where
  "end_literal d =
    (case item d of
       None \<Rightarrow> d
     | Some bs \<Rightarrow> deliver (literal_value bs) (d\<lparr>item := None\<rparr>))"

definition close_frame :: "decodeState \<Rightarrow> decodeState" where
  "close_frame d =
    (case frames d of
       [] \<Rightarrow> d
     | ObjectFrame kvs k # fs \<Rightarrow> deliver (JObject kvs) (d\<lparr>frames := fs\<rparr>)
     | ArrayFrame vs # fs \<Rightarrow> deliver (JArray vs) (d\<lparr>frames := fs\<rparr>))"

definition decode_byte :: "decodeState \<Rightarrow> char \<Rightarrow> decodeState" where
  "decode_byte d c =
    (case run_step (scan d) c of
       (s', op) \<Rightarrow>
        (let d1 = d\<lparr>scan := s'\<rparr> in
         if op = scanContinue then
           (case item d1 of None \<Rightarrow> d1 | Some bs \<Rightarrow> d1\<lparr>item := Some (bs @ [c])\<rparr>)
         else
           (let d2 = end_literal d1 in
            if op = scanBeginLiteral then d2\<lparr>item := Some [c]\<rparr>
            else if op = scanBeginObject then d2\<lparr>frames := ObjectFrame [] None # frames d2\<rparr>
            else if op = scanBeginArray then d2\<lparr>frames := ArrayFrame [] # frames d2\<rparr>
            else if op = scanEndObject \<or> op = scanEndArray then close_frame d2
            else d2)))"

definition json_value :: "string \<Rightarrow> json option" where
  "json_value data =
    top (end_literal (foldl decode_byte
      \<lparr>scan = scanner_reset, item = None, frames = [], top = None\<rparr> data))"

text \<open>
  The states of the scanner inside a literal, and the invariant that ties the pass to
  its scanner while no syntax error has been found: as many open frames as the scanner
  has parse states, a literal being read whenever the scanner is inside one or has just
  left one at the top level, and a top-level value, finished or being read, once the
  scanner has seen the end of the top-level value.
\<close>

definition in_literal :: "step_fn \<Rightarrow> bool" where
  "in_literal f = (f \<in> {StInString, StInStringEsc, StInStringEscU, StInStringEscU1,
     StInStringEscU12, StInStringEscU123, StNeg, St1, St0, StDot, StDot0, StE, StESign, StE0,
     StT, StTr, StTru, StF, StFa, StFal, StFals, StN, StNu, StNul})"

definition decoder_inv :: "decodeState \<Rightarrow> bool" where
  "decoder_inv d =
    (let s = scan d in
      (err s \<noteq> None \<longleftrightarrow> step s = StError)
      \<and> (err s = None \<longrightarrow>
           length (frames d) = length (parseState s)
         \<and> (in_literal (step s) \<longrightarrow> item d \<noteq> None)
         \<and> (step s = StEndValue \<and> parseState s = [] \<longrightarrow> item d \<noteq> None)
         \<and> (step s = StBeginStringOrEmpty \<longrightarrow> parseState s \<noteq> [])
         \<and> (endTop s \<longrightarrow> step s = StEndTop \<and> parseState s = []
               \<and> (top d \<noteq> None \<or> item d \<noteq> None))))"

section \<open>\<^verbatim>\<open>json.Unmarshal\<close>\<close>

text \<open>
  \<^verbatim>\<open>json.Unmarshal(data, v)\<close> for a non-nil pointer \<^verbatim>\<open>v\<close>: a text that \<^verbatim>\<open>checkValid\<close>
  refuses gives the \<^verbatim>\<open>*SyntaxError\<close> and leaves the target as it was; a valid text is
  stored into the target by \<open>store\<close>, the part of the decoder that depends on the
  target's Go type.  \<open>store\<close> answers the target as it is after the call together with
  the first error the decoder saved (an \<^verbatim>\<open>*UnmarshalTypeError\<close>), if any; on such an
  error Go goes on decoding, so the target may have changed all the same.  A valid text
  always has a value (lemma \<open>json_value_defined\<close> below), so the last case of the
  definition never arises.
\<close>

type_synonym 't store = "json \<Rightarrow> 't \<Rightarrow> 't \<times> go_error option"

definition Unmarshal :: "'t store \<Rightarrow> string \<Rightarrow> 't \<Rightarrow> 't \<times> go_error option" where
  "Unmarshal store data v =
    (case checkValid data of
       Some m \<Rightarrow> (v, Some (SyntaxError m))
     | None \<Rightarrow>
        (case json_value data of
           Some j \<Rightarrow> store j v
         | None \<Rightarrow> (v, None)))"

text \<open>
  A JSON key names a struct field when the two are equal or, failing that, equal under
  Unicode simple case folding.  Against a field name of ASCII letters that is: ASCII
  letters match without regard to case, the Kelvin sign (U+212A) matches \<^verbatim>\<open>k\<close> and the
  long s (U+017F) matches \<^verbatim>\<open>s\<close>.  \<open>foldName\<close> maps a key to its folded form; the keys
  it receives are well-formed UTF-8 (\<open>unquote\<close> made them so).
\<close>

definition lower :: "char \<Rightarrow> char" where
  "lower c = (if 65 \<le> byte c \<and> byte c \<le> 90 then char_of (byte c + 32) else c)"

fun foldName :: "string \<Rightarrow> string" where
  "foldName [] = []"
| "foldName (c # cs) =
    (if byte c = 0xE2 \<and> map byte (take 2 cs) = [0x84, 0xAA] then CHR ''k'' # foldName (drop 2 cs)
     else if byte c = 0xC5 \<and> map byte (take 1 cs) = [0xBF] then CHR ''s'' # foldName (drop 1 cs)
     else lower c # foldName cs)"

definition json_kind :: "json \<Rightarrow> string" where
  "json_kind j =
    (case j of
       JNull \<Rightarrow> ''null''
     | JBool b \<Rightarrow> ''bool''
     | JNumber n \<Rightarrow> ''number''
     | JString s \<Rightarrow> ''string''
     | JArray vs \<Rightarrow> ''array''
     | JObject kvs \<Rightarrow> ''object'')"

text \<open>\<^verbatim>\<open>saveError\<close> keeps the first error of a call.\<close>

definition saveError :: "go_error option \<Rightarrow> go_error option \<Rightarrow> go_error option" where
  "saveError saved e = (case saved of Some e0 \<Rightarrow> Some e0 | None \<Rightarrow> e)"

text \<open>
  Storing into a field of Go type \<^verbatim>\<open>string\<close>: a JSON string sets it, \<^verbatim>\<open>null\<close> leaves it,
  and any other value is an \<^verbatim>\<open>UnmarshalTypeError\<close> (of which the model keeps the kind of
  the value and the path of the field).
\<close>

definition store_string :: "string \<Rightarrow> json \<Rightarrow> string \<Rightarrow> string \<times> go_error option" where
  "store_string field j old =
    (case j of
       JString s \<Rightarrow> (s, None)
     | JNull \<Rightarrow> (old, None)
     | _ \<Rightarrow> (old, Some (UnmarshalTypeError (json_kind j) field)))"

subsection \<open>The vendor's error shape\<close>

text \<open>
  The local type of \<^verbatim>\<open>handleResponse\<close>,
  \<^verbatim>\<open>struct { Error struct { Summary, Detail, Code string } }\<close> with the JSON names
  \<^verbatim>\<open>summary\<close>, \<^verbatim>\<open>detail\<close> and \<^verbatim>\<open>code\<close>; the outer field has no tag, so its JSON name is
  \<^verbatim>\<open>Error\<close>.  The record holds the three strings of the one nested struct.
\<close>

record errorResponse =
  Summary :: string
  Detail :: string
  Code :: string

definition errorResponse_zero :: errorResponse where
  "errorResponse_zero = \<lparr>Summary = [], Detail = [], Code = []\<rparr>"

definition store_errorResponse_Error ::
  "errorResponse \<times> go_error option \<Rightarrow> string \<times> json \<Rightarrow> errorResponse \<times> go_error option" where
  "store_errorResponse_Error acc kv =
    (case acc of (v, saved) \<Rightarrow> case kv of (k, j) \<Rightarrow>
       if foldName k = ''summary'' then
         (case store_string ''Error.summary'' j (Summary v) of
            (s, e) \<Rightarrow> (v\<lparr>Summary := s\<rparr>, saveError saved e))
       else if foldName k = ''detail'' then
         (case store_string ''Error.detail'' j (Detail v) of
            (s, e) \<Rightarrow> (v\<lparr>Detail := s\<rparr>, saveError saved e))
       else if foldName k = ''code'' then
         (case store_string ''Error.code'' j (errorResponse.Code v) of
            (s, e) \<Rightarrow> (v\<lparr>errorResponse.Code := s\<rparr>, saveError saved e))
       else (v, saved))"

definition store_errorResponse_member ::
  "errorResponse \<times> go_error option \<Rightarrow> string \<times> json \<Rightarrow> errorResponse \<times> go_error option" where
  "store_errorResponse_member acc kv =
    (case acc of (v, saved) \<Rightarrow> case kv of (k, j) \<Rightarrow>
       if foldName k = ''error'' then
         (case j of
            JNull \<Rightarrow> (v, saved)
          | JObject kvs \<Rightarrow> foldl store_errorResponse_Error (v, saved) kvs
          | _ \<Rightarrow> (v, saveError saved (Some (UnmarshalTypeError (json_kind j) ''Error''))))
       else (v, saved))"

definition store_errorResponse :: "errorResponse store" where
  "store_errorResponse j v =
    (case j of
       JNull \<Rightarrow> (v, None)
     | JObject kvs \<Rightarrow> foldl store_errorResponse_member (v, None) kvs
     | _ \<Rightarrow> (v, Some (UnmarshalTypeError (json_kind j) [])))"

subsection \<open>\<^verbatim>\<open>DeleteProjectRequest\<close>\<close>

record DeleteProjectRequest =
  ID :: string

definition store_DeleteProjectRequest_member ::
  "DeleteProjectRequest \<times> go_error option \<Rightarrow> string \<times> json
    \<Rightarrow> DeleteProjectRequest \<times> go_error option" where
  "store_DeleteProjectRequest_member acc kv =
    (case acc of (v, saved) \<Rightarrow> case kv of (k, j) \<Rightarrow>
       if foldName k = ''id'' then
         (case store_string ''id'' j (ID v) of
            (s, e) \<Rightarrow> (v\<lparr>ID := s\<rparr>, saveError saved e))
       else (v, saved))"

definition store_DeleteProjectRequest :: "DeleteProjectRequest store" where
  "store_DeleteProjectRequest j v =
    (case j of
       JNull \<Rightarrow> (v, None)
     | JObject kvs \<Rightarrow> foldl store_DeleteProjectRequest_member (v, None) kvs
     | _ \<Rightarrow> (v, Some (UnmarshalTypeError (json_kind j) [])))"

text \<open>The errors a decoder of struct fields saves are type errors.\<close>

definition type_error_or_none :: "go_error option \<Rightarrow> bool" where
  "type_error_or_none r = (case r of None \<Rightarrow> True | Some (UnmarshalTypeError k f) \<Rightarrow> True | _ \<Rightarrow> False)"

section \<open>\<^verbatim>\<open>http.StatusText\<close>\<close>

definition statusText :: "(int \<times> string) list" where
  "statusText =
    [(100, ''Continue''), (101, ''Switching Protocols''), (102, ''Processing''),
     (103, ''Early Hints''),
     (200, ''OK''), (201, ''Created''), (202, ''Accepted''),
     (203, ''Non-Authoritative Information''), (204, ''No Content''),
     (205, ''Reset Content''), (206, ''Partial Content''), (207, ''Multi-Status''),
     (208, ''Already Reported''), (226, ''IM Used''),
     (300, ''Multiple Choices''), (301, ''Moved Permanently''), (302, ''Found''),
     (303, ''See Other''), (304, ''Not Modified''), (305, ''Use Proxy''),
     (307, ''Temporary Redirect''), (308, ''Permanent Redirect''),
     (400, ''Bad Request''), (401, ''Unauthorized''), (402, ''Payment Required''),
     (403, ''Forbidden''), (404, ''Not Found''), (405, ''Method Not Allowed''),
     (406, ''Not Acceptable''), (407, ''Proxy Authentication Required''),
     (408, ''Request Timeout''), (409, ''Conflict''), (410, ''Gone''),
     (411, ''Length Required''), (412, ''Precondition Failed''),
     (413, ''Request Entity Too Large''), (414, ''Request URI Too Long''),
     (415, ''Unsupported Media Type''), (416, ''Requested Range Not Satisfiable''),
     (417, ''Expectation Failed''), (418, ''I'' @ [CHR 0x27] @ ''m a teapot''),
     (421, ''Misdirected Request''), (422, ''Unprocessable Entity''), (423, ''Locked''),
     (424, ''Failed Dependency''), (425, ''Too Early''), (426, ''Upgrade Required''),
     (428, ''Precondition Required''), (429, ''Too Many Requests''),
     (431, ''Request Header Fields Too Large''),
     (451, ''Unavailable For Legal Reasons''),
     (500, ''Internal Server Error''), (501, ''Not Implemented''), (502, ''Bad Gateway''),
     (503, ''Service Unavailable''), (504, ''Gateway Timeout''),
     (505, ''HTTP Version Not Supported''), (506, ''Variant Also Negotiates''),
     (507, ''Insufficient Storage''), (508, ''Loop Detected''), (510, ''Not Extended''),
     (511, ''Network Authentication Required'')]"

text \<open>The text of a status code, empty for a code the table does not have.\<close>

definition StatusText :: "int \<Rightarrow> string" where
  "StatusText code = (case map_of statusText code of Some s \<Rightarrow> s | None \<Rightarrow> [])"

definition StatusNoContent :: int where
  "StatusNoContent = 204"

section \<open>\<^verbatim>\<open>handleResponse\<close>\<close>

text \<open>
  A response as \<^verbatim>\<open>handleResponse\<close> reads it: the status code, and what
  \<^verbatim>\<open>ioutil.ReadAll(res.Body)\<close> gives, the bytes of the body or the error of the read.

  The target \<^verbatim>\<open>v interface{}\<close> is \<open>None\<close> for \<^verbatim>\<open>nil\<close> and \<open>Some t\<close> for a pointer to a
  value \<open>t\<close>, the way every caller in the package passes it; \<open>store\<close> is the decoder for
  the Go type of \<open>t\<close>.  The function answers the error it returns (\<open>None\<close> for \<^verbatim>\<open>nil\<close>)
  and the target as the call leaves it.
\<close>

record Response =
  StatusCode :: int
  Body :: "go_error + string"

definition handleResponse ::
  "'t store \<Rightarrow> Response \<Rightarrow> 't option \<Rightarrow> go_error option \<times> 't option" where
  "handleResponse store res v =
    (case Body res of
       Inl e \<Rightarrow> (Some e, v)
     | Inr out \<Rightarrow>
        if StatusCode res \<ge> 400 then
          (case Unmarshal store_errorResponse out errorResponse_zero of
             (errorRes, Some e) \<Rightarrow>
               (case e of
                  SyntaxError jsonErr \<Rightarrow>
                    (Some (TableauError
                       \<lparr>msg = ''malformed error response body received'',
                        Code = ErrCodeInternal,
                        Meta = [''body'' \<mapsto> out, ''err'' \<mapsto> jsonErr,
                                ''http_status'' \<mapsto> StatusText (StatusCode res)]\<rparr>), v)
                | _ \<Rightarrow> (Some e, v))
           | (errorRes, None) \<Rightarrow>
               if errorRes = errorResponse_zero then
                 (Some (TableauError
                    \<lparr>msg = ''internal error, response body doesn't match error type signature'',
                     Code = ErrCodeInternal,
                     Meta = [''body'' \<mapsto> out,
                             ''http_status'' \<mapsto> StatusText (StatusCode res)]\<rparr>), v)
               else
                 (Some (TableauError
                    \<lparr>msg = Summary errorRes @ '': '' @ Detail errorRes,
                     Code = errorResponse.Code errorRes,
                     Meta = Map.empty\<rparr>), v))
        else
          (case v of
             None \<Rightarrow> (None, v)
           | Some t \<Rightarrow>
              if StatusCode res = StatusNoContent then (None, v)
              else
                (case Unmarshal store out t of
                   (t', None) \<Rightarrow> (None, Some t')
                 | (t', Some e) \<Rightarrow>
                    (case e of
                       SyntaxError jsonErr \<Rightarrow>
                         (Some (TableauError
                            \<lparr>msg = ''malformed response body received'',
                             Code = ErrCodeInternal,
                             Meta = [''body'' \<mapsto> out,
                                     ''http_status'' \<mapsto> StatusText (StatusCode res)]\<rparr>),
                          Some t')
                     | _ \<Rightarrow> (Some e, Some t')))))"

section \<open>\<^verbatim>\<open>newRequest\<close>\<close>

text \<open>
  What \<^verbatim>\<open>newRequest\<close> reads of the client: the exported field \<^verbatim>\<open>UserAgent\<close>, the session
  headers, the base URL and the site.  \<^verbatim>\<open>headers\<close> is a Go map; \<^verbatim>\<open>newRequest\<close> ranges over
  it, in an order Go leaves open, so the model holds its entries as a list, in the order
  of that iteration.
\<close>

record Client =
  UserAgent :: string
  headers :: "(string \<times> string) list"
  baseURL :: string
  SiteID :: string

text \<open>
  An \<^verbatim>\<open>*http.Request\<close> as far as \<^verbatim>\<open>newRequest\<close> determines it.  \<open>RequestBody\<close> is \<open>None\<close>
  when the request has no body (\<^verbatim>\<open>http.NewRequest\<close> got \<^verbatim>\<open>nil\<close>) and \<open>Some bs\<close> when it
  carries the bytes \<open>bs\<close> of the buffer, which may be none.  \<^verbatim>\<open>http.Header\<close> maps a
  canonical key to its values.
\<close>

type_synonym Header = "string \<rightharpoonup> string list"

record Request =
  Method :: string
  URL :: string
  Header :: Header
  RequestBody :: "string option"

text \<open>
  The functions of \<^verbatim>\<open>net/url\<close> and \<^verbatim>\<open>encoding/json\<close> that \<^verbatim>\<open>newRequest\<close> calls and that
  depend on nothing of this repository are parameters of the model:
  \<open>ResolveReference base ref\<close> is \<^verbatim>\<open>base.Parse(ref)\<close> followed by \<^verbatim>\<open>String()\<close>, \<open>ParseURL\<close>
  is the \<^verbatim>\<open>url.Parse\<close> inside \<^verbatim>\<open>http.NewRequest\<close>, and \<open>Marshal\<close> is the JSON encoding of
  a body of the Go type \<open>'b\<close>.
\<close>

record 'b library =
  ResolveReference :: "string \<Rightarrow> string \<Rightarrow> go_error + string"
  ParseURL :: "string \<Rightarrow> go_error + string"
  Marshal :: "'b \<Rightarrow> go_error + string"

definition MethodGet :: string where
  "MethodGet = ''GET''"

text \<open>The token characters of HTTP: a method and a header key are made of them.\<close>

definition isTokenByte :: "char \<Rightarrow> bool" where
  "isTokenByte c =
    (isDigit c \<or> (65 \<le> byte c \<and> byte c \<le> 90) \<or> (97 \<le> byte c \<and> byte c \<le> 122)
     \<or> c \<in> set ''!#$%&*+-.^_|~'' \<or> byte c = 39 \<or> byte c = 96)"

definition validMethod :: "string \<Rightarrow> bool" where
  "validMethod m = (m \<noteq> [] \<and> list_all isTokenByte m)"

text \<open>
  \<^verbatim>\<open>textproto.CanonicalMIMEHeaderKey\<close>: a key of token characters gets an upper-case
  letter at its start and after each dash and lower-case letters elsewhere; any other
  key is left as it is.
\<close>

fun canonical :: "bool \<Rightarrow> string \<Rightarrow> string" where
  "canonical upper [] = []"
| "canonical upper (c # cs) =
    (let c' = (if upper \<and> 97 \<le> byte c \<and> byte c \<le> 122 then char_of (byte c - 32)
               else if \<not> upper \<and> 65 \<le> byte c \<and> byte c \<le> 90 then char_of (byte c + 32)
               else c)
     in c' # canonical (c' = CHR ''-'') cs)"

definition CanonicalMIMEHeaderKey :: "string \<Rightarrow> string" where
  "CanonicalMIMEHeaderKey s = (if list_all isTokenByte s then canonical True s else s)"

definition Header_Set :: "string \<Rightarrow> string \<Rightarrow> Request \<Rightarrow> Request" where
  "Header_Set k v req = req\<lparr>Header := (Header req)(CanonicalMIMEHeaderKey k \<mapsto> [v])\<rparr>"

definition Header_Get :: "Request \<Rightarrow> string \<Rightarrow> string" where
  "Header_Get req k =
    (case Header req (CanonicalMIMEHeaderKey k) of Some (v # vs) \<Rightarrow> v | _ \<Rightarrow> [])"

text \<open>
  \<^verbatim>\<open>http.NewRequest\<close>: the empty method means \<^verbatim>\<open>GET\<close>, a method that is not a token is
  refused, and so is a URL that does not parse.  The new request has no header.
\<close>

definition http_NewRequest ::
  "'b library \<Rightarrow> string \<Rightarrow> string \<Rightarrow> string option \<Rightarrow> go_error + Request" where
  "http_NewRequest lib method0 url body =
    (let method = (if method0 = [] then ''GET'' else method0) in
     if \<not> validMethod method then Inl (LibraryError ''net/http: invalid method'')
     else (case ParseURL lib url of
        Inl e \<Rightarrow> Inl e
      | Inr u \<Rightarrow> Inr \<lparr>Method = method, URL = u, Header = Map.empty, RequestBody = body\<rparr>))"

text \<open>\<^verbatim>\<open>json.NewEncoder(buf).Encode(body)\<close> writes the encoding and a newline.\<close>

definition Encode :: "'b library \<Rightarrow> 'b \<Rightarrow> go_error + string" where
  "Encode lib body =
    (case Marshal lib body of Inl e \<Rightarrow> Inl e | Inr bs \<Rightarrow> Inr (bs @ [CHR 0x0A]))"

definition newRequest ::
  "'b library \<Rightarrow> Client \<Rightarrow> string \<Rightarrow> string \<Rightarrow> 'b option \<Rightarrow> go_error + Request" where
  "newRequest lib c method path body =
    (case ResolveReference lib (baseURL c) path of
       Inl e \<Rightarrow> Inl e
     | Inr u \<Rightarrow>
        (case
           (if method = MethodGet then http_NewRequest lib method u None
            else
              (case (case body of None \<Rightarrow> Inr [] | Some b \<Rightarrow> Encode lib b) of
                 Inl e \<Rightarrow> Inl e
               | Inr buf \<Rightarrow>
                  (case http_NewRequest lib method u (Some buf) of
                     Inl e \<Rightarrow> Inl e
                   | Inr req \<Rightarrow> Inr (Header_Set ''Content-Type'' jsonMediaType req))))
         of
           Inl e \<Rightarrow> Inl e
         | Inr req \<Rightarrow>
            Inr (foldl (\<lambda>r kv. Header_Set (fst kv) (snd kv) r)
                  (Header_Set ''User-Agent'' (UserAgent c)
                    (Header_Set ''Accept'' jsonMediaType req))
                  (headers c))))"

text \<open>
  \<^verbatim>\<open>NewClient\<close> builds the client with \<^verbatim>\<open>UserAgent: userAgent\<close> and an empty header map,
  and \<^verbatim>\<open>signIn\<close>, once the sign-in call has answered, stores the token under
  \<^verbatim>\<open>X-Tableau-Auth\<close> and the site's id.
\<close>

definition NewClient_literal :: "string \<Rightarrow> Client" where
  "NewClient_literal url = \<lparr>UserAgent = userAgent, headers = [], baseURL = url, SiteID = []\<rparr>"

text \<open>The assignment \<^verbatim>\<open>m[k] = v\<close> on a map held as a list of entries.\<close>

definition map_assign :: "'k \<Rightarrow> 'v \<Rightarrow> ('k \<times> 'v) list \<Rightarrow> ('k \<times> 'v) list" where
  "map_assign k v m =
    (if k \<in> fst ` set m then map (\<lambda>kv. if fst kv = k then (k, v) else kv) m
     else m @ [(k, v)])"

definition signIn_store :: "string \<Rightarrow> string \<Rightarrow> Client \<Rightarrow> Client" where
  "signIn_store token siteID c =
    c\<lparr>headers := map_assign ''X-Tableau-Auth'' token (headers c), SiteID := siteID\<rparr>"

section \<open>Query options\<close>

text \<open>
  \<^verbatim>\<open>url.Values\<close> is \<^verbatim>\<open>map[string][]string\<close>; \<^verbatim>\<open>Set\<close> replaces the values of a key by one
  value.  \<^verbatim>\<open>QueryOptions.URLValues\<close> is a pointer to such a map: \<open>None\<close> stands for a
  pointer that is \<^verbatim>\<open>nil\<close> or points to a \<^verbatim>\<open>nil\<close> map, where \<^verbatim>\<open>Set\<close> panics (the model
  has one runtime panic for both).  \<^verbatim>\<open>Query\<close> always allocates the map.
\<close>

type_synonym Values = "string \<rightharpoonup> string list"

record QueryOptions =
  URLValues :: "Values option"

datatype go_panic = PanicError go_error | RuntimePanic string

text \<open>
  A \<^verbatim>\<open>QueryOption\<close> is a function on \<^verbatim>\<open>*QueryOptions\<close> that returns an error: in the
  model it answers a panic, or the options as it leaves them with the error it returns.
\<close>

type_synonym QueryOption = "QueryOptions \<Rightarrow> go_panic + (QueryOptions \<times> go_error option)"

definition Values_Set :: "string \<Rightarrow> string \<Rightarrow> QueryOptions \<Rightarrow> go_panic + QueryOptions" where
  "Values_Set k v opt =
    (case URLValues opt of
       None \<Rightarrow> Inl (RuntimePanic ''assignment to entry in nil map'')
     | Some m \<Rightarrow> Inr (opt\<lparr>URLValues := Some (m(k \<mapsto> [v]))\<rparr>))"

text \<open>\<^verbatim>\<open>strconv.Itoa\<close>: the decimal digits of an integer, after a minus sign if it is negative.\<close>

fun decimal :: "nat \<Rightarrow> string" where
  "decimal n =
    (if n < 10 then [char_of (48 + n)]
     else decimal (n div 10) @ [char_of (48 + n mod 10)])"

declare decimal.simps [simp del]

definition Itoa :: "int \<Rightarrow> string" where
  "Itoa i = (if i < 0 then CHR ''-'' # decimal (nat (- i)) else decimal (nat i))"

definition WithPageSize :: "int \<Rightarrow> QueryOption" where
  "WithPageSize pageSize opt =
    (if pageSize > 0 then
       (case Values_Set ''pageSize'' (Itoa pageSize) opt of
          Inl p \<Rightarrow> Inl p | Inr opt' \<Rightarrow> Inr (opt', None))
     else Inr (opt, None))"

definition WithPageNumber :: "int \<Rightarrow> QueryOption" where
  "WithPageNumber pageNumber opt =
    (if pageNumber > 0 then
       (case Values_Set ''pageNumber'' (Itoa pageNumber) opt of
          Inl p \<Rightarrow> Inl p | Inr opt' \<Rightarrow> Inr (opt', None))
     else Inr (opt, None))"

definition WithFilterExpression :: "string \<Rightarrow> QueryOption" where
  "WithFilterExpression filterExp opt =
    (if filterExp \<noteq> [] then
       (case Values_Set ''filter'' filterExp opt of
          Inl p \<Rightarrow> Inl p | Inr opt' \<Rightarrow> Inr (opt', None))
     else Inr (opt, None))"

definition WithSortExpression :: "string \<Rightarrow> QueryOption" where
  "WithSortExpression sortExp opt =
    (if sortExp \<noteq> [] then
       (case Values_Set ''sort'' sortExp opt of
          Inl p \<Rightarrow> Inl p | Inr opt' \<Rightarrow> Inr (opt', None))
     else Inr (opt, None))"

text \<open>
  The loop of \<^verbatim>\<open>projectsService.Query\<close> over its options, from the options
  \<^verbatim>\<open>&QueryOptions{URLValues: &url.Values{}}\<close>: an option that returns an error makes
  \<^verbatim>\<open>Query\<close> panic with it.
\<close>

definition Query_queryOpts :: QueryOptions where
  "Query_queryOpts = \<lparr>URLValues = Some Map.empty\<rparr>"

fun Query_loop :: "QueryOption list \<Rightarrow> QueryOptions \<Rightarrow> go_panic + QueryOptions" where
  "Query_loop [] queryOpts = Inr queryOpts"
| "Query_loop (opt # opts) queryOpts =
    (case opt queryOpts of
       Inl p \<Rightarrow> Inl p
     | Inr (queryOpts', Some e) \<Rightarrow> Inl (PanicError e)
     | Inr (queryOpts', None) \<Rightarrow> Query_loop opts queryOpts')"


text \<open>
  The options that the four constructors of the package produce, named by constructor
  and argument, with the URL parameter each one sets and the condition under which it
  sets it.
\<close>

datatype option_spec =
    PageSize int
  | PageNumber int
  | FilterExpression string
  | SortExpression string

fun option_of :: "option_spec \<Rightarrow> QueryOption" where
  "option_of (PageSize n) = WithPageSize n"
| "option_of (PageNumber n) = WithPageNumber n"
| "option_of (FilterExpression s) = WithFilterExpression s"
| "option_of (SortExpression s) = WithSortExpression s"

fun parameter :: "option_spec \<Rightarrow> string" where
  "parameter (PageSize n) = ''pageSize''"
| "parameter (PageNumber n) = ''pageNumber''"
| "parameter (FilterExpression s) = ''filter''"
| "parameter (SortExpression s) = ''sort''"

fun rendered :: "option_spec \<Rightarrow> string" where
  "rendered (PageSize n) = Itoa n"
| "rendered (PageNumber n) = Itoa n"
| "rendered (FilterExpression s) = s"
| "rendered (SortExpression s) = s"

fun is_default :: "option_spec \<Rightarrow> bool" where
  "is_default (PageSize n) = (n = 0)"
| "is_default (PageNumber n) = (n = 0)"
| "is_default (FilterExpression s) = (s = [])"
| "is_default (SortExpression s) = (s = [])"

fun sets_parameter :: "option_spec \<Rightarrow> bool" where
  "sets_parameter (PageSize n) = (n > 0)"
| "sets_parameter (PageNumber n) = (n > 0)"
| "sets_parameter (FilterExpression s) = (s \<noteq> [])"
| "sets_parameter (SortExpression s) = (s \<noteq> [])"

section \<open>Instances for the examples\<close>

text \<open>
  The library functions that \<open>newRequest\<close> takes as parameters, as they act on the
  inputs of the examples below: a relative path without dot segments resolved against a
  base URL that ends in a slash is the two joined, that URL parses to itself, and the
  body is a string that already holds its JSON encoding.  The client is one that
  \<^verbatim>\<open>NewClient\<close> has built and signed in.
\<close>

definition library_example :: "string library" where
  "library_example =
    \<lparr>ResolveReference = (\<lambda>base ref. Inr (base @ ref)), ParseURL = Inr, Marshal = Inr\<rparr>"

text \<open>
  The response body of the third case of \<^verbatim>\<open>TestDo\<close> (\<^verbatim>\<open>client_test.go\<close>): the object over
  three lines, indented with tabs.
\<close>

definition TestDo_response :: string where
  "TestDo_response =
    ''{'' @ [CHR 0x0A, CHR 0x09, CHR 0x09, CHR 0x09] @ [CHR 0x22] @ ''id'' @ [CHR 0x22]
      @ '': '' @ [CHR 0x22] @ ''test'' @ [CHR 0x22]
      @ [CHR 0x0A, CHR 0x09, CHR 0x09, CHR 0x09] @ ''}''"

definition client_example :: Client where
  "client_example =
    signIn_store ''token'' ''site-id'' (NewClient_literal ''https://tableau.example/api/3.4/'')"

section \<open>Every valid text has a value\<close>

text \<open>
  What a step of the scanner does to its state, by the operation it answers; then the
  invariant of the value pass, kept by every step that is not a syntax error; then the
  result: a text that \<open>checkValid\<close> accepts has a value, so \<open>Unmarshal\<close> stores exactly
  that value.
\<close>

lemmas scanner_defs = run_step_def stateBeginValueOrEmpty_def stateBeginValue_def
  stateBeginStringOrEmpty_def stateBeginString_def stateEndValue_def stateEndTop_def
  stateInString_def stateInStringEsc_def stateInStringEscU_any_def stateNeg_def state1_def
  state0_def stateDot_def stateDot0_def stateE_def stateESign_def stateE0_def stateLetter_def
  scan_error_def pushParseState_def popParseState_def

lemma run_step_Continue:
  assumes "run_step s c = (s', scanContinue)"
  shows "in_literal (step s) \<and> (in_literal (step s') \<or> step s' = StEndValue)
       \<and> parseState s' = parseState s \<and> endTop s' = endTop s \<and> err s' = err s"
  using assms
  by (cases "step s")
    (auto simp: in_literal_def scanner_defs Let_def
      split: if_splits list.splits parse_state.splits)

lemma run_step_BeginLiteral:
  assumes "run_step s c = (s', scanBeginLiteral)"
  shows "in_literal (step s') \<and> step s \<noteq> StEndTop
       \<and> parseState s' = parseState s \<and> endTop s' = endTop s \<and> err s' = err s"
  using assms
  by (cases "step s")
    (auto simp: in_literal_def scanner_defs Let_def
      split: if_splits list.splits parse_state.splits)

lemma run_step_Begin:
  assumes "run_step s c = (s', op)" and "op = scanBeginObject \<or> op = scanBeginArray"
  shows "length (parseState s') = Suc (length (parseState s)) \<and> step s \<noteq> StEndTop
       \<and> \<not> in_literal (step s') \<and> step s' \<noteq> StEndValue \<and> step s' \<noteq> StError
       \<and> endTop s' = endTop s \<and> err s' = err s"
  using assms
  by (cases "step s")
    (auto simp: in_literal_def scanner_defs Let_def
      split: if_splits list.splits parse_state.splits)

lemma run_step_separator:
  assumes "run_step s c = (s', op)"
    and "op = scanObjectKey \<or> op = scanObjectValue \<or> op = scanArrayValue \<or> op = scanSkipSpace"
  shows "length (parseState s') = length (parseState s) \<and> step s \<noteq> StEndTop
       \<and> \<not> in_literal (step s') \<and> (step s' = StEndValue \<longrightarrow> parseState s' \<noteq> [])
       \<and> (step s' = StBeginStringOrEmpty \<longrightarrow> step s = StBeginStringOrEmpty)
       \<and> step s' \<noteq> StError
       \<and> endTop s' = endTop s \<and> err s' = err s"
  using assms
  by (cases "step s")
    (auto simp: in_literal_def scanner_defs Let_def
      split: if_splits list.splits parse_state.splits)

lemma run_step_End:
  assumes "run_step s c = (s', op)" and "op = scanEndObject \<or> op = scanEndArray"
    and "step s = StBeginStringOrEmpty \<longrightarrow> parseState s \<noteq> []"
  shows "parseState s \<noteq> [] \<and> parseState s' = tl (parseState s) \<and> step s \<noteq> StEndTop
       \<and> err s' = err s
       \<and> (if parseState s' = [] then step s' = StEndTop \<and> endTop s'
           else step s' = StEndValue \<and> endTop s' = endTop s)"
  using assms
  by (cases "step s")
    (auto simp: in_literal_def scanner_defs Let_def
      split: if_splits list.splits parse_state.splits)

lemma run_step_scanEnd:
  assumes "run_step s c = (s', scanEnd)" and "err s = None"
  shows "(err s' \<noteq> None \<and> step s' = StError)
       \<or> (step s = StEndTop \<and> s' = s)
       \<or> (err s' = None \<and> step s' = StEndTop \<and> endTop s' \<and> parseState s' = []
          \<and> parseState s = [] \<and> (step s = StEndValue \<or> in_literal (step s)))"
  using assms
  by (cases "step s")
    (auto simp: in_literal_def scanner_defs Let_def
      split: if_splits list.splits parse_state.splits)

lemma run_step_error_state:
  "step s = StError \<Longrightarrow> run_step s c = (s, scanError)"
  by (simp add: run_step_def)

lemma run_step_scanError:
  assumes "run_step s c = (s', scanError)" and "step s \<noteq> StError"
  shows "err s' \<noteq> None"
  using assms
  by (cases "step s")
    (auto simp: in_literal_def scanner_defs Let_def
      split: if_splits list.splits parse_state.splits)

lemma run_step_space_endTop:
  assumes "run_step s (CHR '' '') = (s', op)" and "endTop s'" and "\<not> endTop s"
  shows "parseState s = [] \<and> (step s = StEndValue \<or> in_literal (step s))"
  using assms
  by (cases "step s")
    (auto simp: in_literal_def scanner_defs Let_def isSpace_def byte_def
      split: if_splits list.splits parse_state.splits)

lemma deliver_fields:
  "scan (deliver v d) = scan d" "item (deliver v d) = item d"
  "length (frames (deliver v d)) = length (frames d)"
  "top d \<noteq> None \<Longrightarrow> top (deliver v d) \<noteq> None"
  "frames d = [] \<Longrightarrow> top (deliver v d) \<noteq> None"
  by (auto simp: deliver_def split: list.splits frame.splits option.splits json.splits)

lemma end_literal_fields:
  "scan (end_literal d) = scan d" "item (end_literal d) = None"
  "length (frames (end_literal d)) = length (frames d)"
  "top d \<noteq> None \<Longrightarrow> top (end_literal d) \<noteq> None"
  "item d \<noteq> None \<Longrightarrow> frames d = [] \<Longrightarrow> top (end_literal d) \<noteq> None"
proof -
  show "scan (end_literal d) = scan d" "item (end_literal d) = None"
    "length (frames (end_literal d)) = length (frames d)"
    by (cases "item d"; simp add: end_literal_def deliver_fields)+
  show "top (end_literal d) \<noteq> None" if "top d \<noteq> None"
  proof (cases "item d")
    case None
    with that show ?thesis by (simp add: end_literal_def)
  next
    case (Some bs)
    have "top (deliver (literal_value bs) (d\<lparr>item := None\<rparr>)) \<noteq> None"
      using that by (intro deliver_fields(4)) simp
    with Some show ?thesis by (simp add: end_literal_def)
  qed
  show "top (end_literal d) \<noteq> None" if "item d \<noteq> None" "frames d = []"
  proof -
    from that obtain bs where bs: "item d = Some bs" by blast
    have "top (deliver (literal_value bs) (d\<lparr>item := None\<rparr>)) \<noteq> None"
      using that by (intro deliver_fields(5)) simp
    with bs show ?thesis by (simp add: end_literal_def)
  qed
qed

lemma close_frame_fields:
  "scan (close_frame d) = scan d" "item (close_frame d) = item d"
  "length (frames (close_frame d)) = length (frames d) - 1"
  "top d \<noteq> None \<Longrightarrow> top (close_frame d) \<noteq> None"
  "length (frames d) = 1 \<Longrightarrow> top (close_frame d) \<noteq> None"
proof -
  show "scan (close_frame d) = scan d" "item (close_frame d) = item d"
    "length (frames (close_frame d)) = length (frames d) - 1"
    by (simp_all add: close_frame_def deliver_fields split: list.splits frame.splits)
  show "top (close_frame d) \<noteq> None" if "top d \<noteq> None"
  proof (cases "frames d")
    case Nil
    with that show ?thesis by (simp add: close_frame_def)
  next
    case (Cons f fs)
    have "top (deliver v (d\<lparr>frames := fs\<rparr>)) \<noteq> None" for v
      using that by (intro deliver_fields(4)) simp
    with Cons show ?thesis by (cases f) (simp_all add: close_frame_def)
  qed
  show "top (close_frame d) \<noteq> None" if "length (frames d) = 1"
  proof -
    from that obtain f where f: "frames d = [f]"
      by (cases "frames d") simp_all
    have "top (deliver v (d\<lparr>frames := []\<rparr>)) \<noteq> None" for v
      by (intro deliver_fields(5)) simp
    with f show ?thesis by (cases f) (simp_all add: close_frame_def)
  qed
qed

lemma in_literal_simps:
  "\<not> in_literal StEndTop" "\<not> in_literal StEndValue" "\<not> in_literal StBeginStringOrEmpty"
  "\<not> in_literal StError"
  by (simp_all add: in_literal_def)

lemma decoder_invI:
  assumes "err (scan d) = None"
    and "step (scan d) \<noteq> StError"
    and "length (frames d) = length (parseState (scan d))"
    and "in_literal (step (scan d)) \<Longrightarrow> item d \<noteq> None"
    and "step (scan d) = StEndValue \<Longrightarrow> parseState (scan d) = [] \<Longrightarrow> item d \<noteq> None"
    and "step (scan d) = StBeginStringOrEmpty \<Longrightarrow> parseState (scan d) \<noteq> []"
    and "endTop (scan d) \<Longrightarrow> step (scan d) = StEndTop \<and> parseState (scan d) = []
          \<and> (top d \<noteq> None \<or> item d \<noteq> None)"
  shows "decoder_inv d"
  using assms unfolding decoder_inv_def Let_def by blast

lemma decoder_inv_errI:
  "err (scan d) \<noteq> None \<Longrightarrow> step (scan d) = StError \<Longrightarrow> decoder_inv d"
  unfolding decoder_inv_def Let_def by blast

lemma decoder_inv_step:
  assumes inv: "decoder_inv d" and st: "run_step (scan d) c = (s', op)" and ok: "op \<noteq> scanError"
  shows "decoder_inv (decode_byte d c)"
proof -
  have e: "err (scan d) = None"
  proof (rule ccontr)
    assume "err (scan d) \<noteq> None"
    with inv have "step (scan d) = StError" by (simp add: decoder_inv_def Let_def)
    with st ok show False by (simp add: run_step_error_state)
  qed
  from inv e have ne: "step (scan d) \<noteq> StError"
    by (simp add: decoder_inv_def Let_def)
  from inv e have l: "length (frames d) = length (parseState (scan d))"
    and lit: "in_literal (step (scan d)) \<Longrightarrow> item d \<noteq> None"
    and ev: "step (scan d) = StEndValue \<Longrightarrow> parseState (scan d) = [] \<Longrightarrow> item d \<noteq> None"
    and et: "endTop (scan d) \<Longrightarrow> step (scan d) = StEndTop \<and> parseState (scan d) = []
               \<and> (top d \<noteq> None \<or> item d \<noteq> None)"
    and bs: "step (scan d) = StBeginStringOrEmpty \<Longrightarrow> parseState (scan d) \<noteq> []"
    by (simp_all add: decoder_inv_def Let_def)
  let ?d1 = "d\<lparr>scan := s'\<rparr>"
  let ?d2 = "end_literal ?d1"
  have d2: "scan ?d2 = s'" "item ?d2 = None" "length (frames ?d2) = length (frames d)"
    by (simp_all add: end_literal_fields)
  consider (Continue) "op = scanContinue" | (BeginLiteral) "op = scanBeginLiteral"
    | (Begin) "op = scanBeginObject \<or> op = scanBeginArray"
    | (Sep) "op = scanObjectKey \<or> op = scanObjectValue \<or> op = scanArrayValue \<or> op = scanSkipSpace"
    | (End) "op = scanEndObject \<or> op = scanEndArray" | (Top) "op = scanEnd"
    using ok by (cases op) auto
  then show ?thesis
  proof cases
    case Continue
    from run_step_Continue [OF st [unfolded Continue]] have
      il: "in_literal (step (scan d))" and s: "in_literal (step s') \<or> step s' = StEndValue"
      and ps: "parseState s' = parseState (scan d)" and es: "endTop s' = endTop (scan d)"
      and er: "err s' = err (scan d)"
      by blast+
    from lit [OF il] obtain bs where i: "item d = Some bs" by blast
    have net: "\<not> endTop (scan d)"
      using et il by (auto simp: in_literal_simps)
    have dd: "decode_byte d c = ?d1\<lparr>item := Some (bs @ [c])\<rparr>"
      using st Continue i by (simp add: decode_byte_def)
    show ?thesis
      unfolding dd
    proof (rule decoder_invI)
      show "step (scan (?d1\<lparr>item := Some (bs @ [c])\<rparr>)) = StBeginStringOrEmpty \<Longrightarrow>
        parseState (scan (?d1\<lparr>item := Some (bs @ [c])\<rparr>)) \<noteq> []"
        using s by (auto simp: in_literal_simps)
      show "step (scan (?d1\<lparr>item := Some (bs @ [c])\<rparr>)) \<noteq> StError"
        using s by (auto simp: in_literal_simps)
    qed (use e er l ps es net in simp_all)
  next
    case BeginLiteral
    from run_step_BeginLiteral [OF st [unfolded BeginLiteral]] have
      s: "in_literal (step s')" and nt: "step (scan d) \<noteq> StEndTop"
      and ps: "parseState s' = parseState (scan d)" and es: "endTop s' = endTop (scan d)"
      and er: "err s' = err (scan d)"
      by blast+
    have net: "\<not> endTop (scan d)" using et nt by blast
    have dd: "decode_byte d c = ?d2\<lparr>item := Some [c]\<rparr>"
      using st BeginLiteral by (simp add: decode_byte_def Let_def)
    show ?thesis
      unfolding dd
    proof (rule decoder_invI)
      show "step (scan (?d2\<lparr>item := Some [c]\<rparr>)) = StBeginStringOrEmpty \<Longrightarrow>
        parseState (scan (?d2\<lparr>item := Some [c]\<rparr>)) \<noteq> []"
        using s by (auto simp: in_literal_simps d2)
      show "step (scan (?d2\<lparr>item := Some [c]\<rparr>)) \<noteq> StError"
        using s by (auto simp: in_literal_simps d2)
    qed (use e er l ps es net d2 in simp_all)
  next
    case Begin
    from run_step_Begin [OF st Begin] have
      ps: "length (parseState s') = Suc (length (parseState (scan d)))"
      and nt: "step (scan d) \<noteq> StEndTop"
      and s: "\<not> in_literal (step s')" "step s' \<noteq> StEndValue" "step s' \<noteq> StError"
      and es: "endTop s' = endTop (scan d)" and er: "err s' = err (scan d)"
      by blast+
    have net: "\<not> endTop (scan d)" using et nt by blast
    from Begin obtain f where dd: "decode_byte d c = ?d2\<lparr>frames := f # frames ?d2\<rparr>"
      using st by (auto simp: decode_byte_def Let_def)
    show ?thesis
      unfolding dd
    proof (rule decoder_invI)
      show "step (scan (?d2\<lparr>frames := f # frames ?d2\<rparr>)) = StBeginStringOrEmpty \<Longrightarrow>
        parseState (scan (?d2\<lparr>frames := f # frames ?d2\<rparr>)) \<noteq> []"
        using ps by (auto simp: d2)
    qed (use e er l ps es net d2 s in simp_all)
  next
    case Sep
    from run_step_separator [OF st Sep] have
      ps: "length (parseState s') = length (parseState (scan d))"
      and nt: "step (scan d) \<noteq> StEndTop"
      and s: "\<not> in_literal (step s')" "step s' = StEndValue \<longrightarrow> parseState s' \<noteq> []"
        "step s' = StBeginStringOrEmpty \<longrightarrow> step (scan d) = StBeginStringOrEmpty"
        "step s' \<noteq> StError"
      and es: "endTop s' = endTop (scan d)" and er: "err s' = err (scan d)"
      by blast+
    have net: "\<not> endTop (scan d)" using et nt by blast
    have dd: "decode_byte d c = ?d2"
      using st Sep by (auto simp: decode_byte_def Let_def)
    show ?thesis
      unfolding dd
    proof (rule decoder_invI)
      show "step (scan ?d2) = StBeginStringOrEmpty \<Longrightarrow> parseState (scan ?d2) \<noteq> []"
        using s bs ps by (auto simp: d2)
    qed (use e er l ps es net d2 s in simp_all)
  next
    case End
    from run_step_End [OF st End] bs have
      ne: "parseState (scan d) \<noteq> []" and ps: "parseState s' = tl (parseState (scan d))"
      and nt: "step (scan d) \<noteq> StEndTop" and er: "err s' = err (scan d)"
      and s: "if parseState s' = [] then step s' = StEndTop \<and> endTop s'
         else step s' = StEndValue \<and> endTop s' = endTop (scan d)"
      by blast+
    have net: "\<not> endTop (scan d)" using et nt by blast
    have dd: "decode_byte d c = close_frame ?d2"
      using st End by (auto simp: decode_byte_def Let_def)
    have cf: "scan (close_frame ?d2) = s'"
      by (simp add: close_frame_fields d2)
    have len: "length (frames (close_frame ?d2)) = length (parseState s')"
      using ne ps l d2 by (simp add: close_frame_fields)
    have tp: "top (close_frame ?d2) \<noteq> None" if "parseState s' = []"
    proof -
      from that ne ps l d2 have "length (frames ?d2) = 1"
        by (cases "parseState (scan d)") simp_all
      then show ?thesis by (rule close_frame_fields)
    qed
    show ?thesis
      unfolding dd
    proof (rule decoder_invI)
      show "err (scan (close_frame ?d2)) = None" using e er cf by simp
      show "step (scan (close_frame ?d2)) \<noteq> StError"
        using s cf by (cases "parseState s' = []") simp_all
      show "length (frames (close_frame ?d2)) = length (parseState (scan (close_frame ?d2)))"
        using len cf by simp
      show "in_literal (step (scan (close_frame ?d2))) \<Longrightarrow> item (close_frame ?d2) \<noteq> None"
        using s cf by (cases "parseState s' = []") (simp_all add: in_literal_simps)
      show "step (scan (close_frame ?d2)) = StEndValue \<Longrightarrow>
        parseState (scan (close_frame ?d2)) = [] \<Longrightarrow> item (close_frame ?d2) \<noteq> None"
        using s cf by (cases "parseState s' = []") simp_all
      show "step (scan (close_frame ?d2)) = StBeginStringOrEmpty \<Longrightarrow>
        parseState (scan (close_frame ?d2)) \<noteq> []"
        using s cf by (cases "parseState s' = []") simp_all
      show "endTop (scan (close_frame ?d2)) \<Longrightarrow>
        step (scan (close_frame ?d2)) = StEndTop \<and> parseState (scan (close_frame ?d2)) = []
          \<and> (top (close_frame ?d2) \<noteq> None \<or> item (close_frame ?d2) \<noteq> None)"
        using s cf tp net by (cases "parseState s' = []") simp_all
    qed
  next
    case Top
    have dd: "decode_byte d c = ?d2"
      using st Top by (auto simp: decode_byte_def Let_def)
    from run_step_scanEnd [OF st [unfolded Top] e]
    consider (err) "err s' \<noteq> None" "step s' = StError"
      | (same) "step (scan d) = StEndTop" "s' = scan d"
      | (fresh) "err s' = None" "step s' = StEndTop" "endTop s'" "parseState s' = []"
          "parseState (scan d) = []" "step (scan d) = StEndValue \<or> in_literal (step (scan d))"
      by auto
    then show ?thesis
    proof cases
      case err
      then show ?thesis unfolding dd by (intro decoder_inv_errI) (simp_all add: d2)
    next
      case same
      from same have s: "step s' = StEndTop" "parseState s' = parseState (scan d)"
        "endTop s' = endTop (scan d)" "err s' = err (scan d)"
        by simp_all
      have tp: "top ?d2 \<noteq> None" if "endTop (scan d)"
      proof -
        from et [OF that] l have f: "frames ?d1 = []" and t: "top d \<noteq> None \<or> item d \<noteq> None"
          by simp_all
        from t show ?thesis
        proof
          assume "top d \<noteq> None"
          then show ?thesis by (simp add: end_literal_fields)
        next
          assume "item d \<noteq> None"
          with f show ?thesis by (intro end_literal_fields(5)) simp_all
        qed
      qed
      show ?thesis
        unfolding dd
      proof (rule decoder_invI)
        show "endTop (scan ?d2) \<Longrightarrow> step (scan ?d2) = StEndTop \<and> parseState (scan ?d2) = []
          \<and> (top ?d2 \<noteq> None \<or> item ?d2 \<noteq> None)"
          using s et tp by (simp add: d2)
      qed (use s e l d2 ne same in \<open>simp_all add: in_literal_simps\<close>)
    next
      case fresh
      from fresh lit ev have i: "item d \<noteq> None" by blast
      from fresh l have f: "frames ?d1 = []" by simp
      from i f have tp: "top ?d2 \<noteq> None" by (intro end_literal_fields(5)) simp_all
      show ?thesis
        unfolding dd
        by (rule decoder_invI) (use fresh l d2 tp in \<open>simp_all add: in_literal_simps\<close>)
    qed
  qed
qed

lemma scan_decode_byte: "scan (decode_byte d c) = fst (run_step (scan d) c)"
  by (cases "run_step (scan d) c")
    (simp add: decode_byte_def Let_def end_literal_fields close_frame_fields
      split: option.splits)

lemma decoder_inv_top:
  assumes "decoder_inv d" and "checkValid_loop (scan d) cs = None"
  shows "top (end_literal (foldl decode_byte d cs)) \<noteq> None"
  using assms
proof (induction cs arbitrary: d)
  case Nil
  from Nil.prems(2) have e: "err (scan d) = None"
    by (auto simp: scanner_eof_def split: if_splits)
  with Nil.prems(1) have l: "length (frames d) = length (parseState (scan d))"
    and lit: "in_literal (step (scan d)) \<Longrightarrow> item d \<noteq> None"
    and ev: "step (scan d) = StEndValue \<Longrightarrow> parseState (scan d) = [] \<Longrightarrow> item d \<noteq> None"
    and et: "endTop (scan d) \<Longrightarrow> step (scan d) = StEndTop \<and> parseState (scan d) = []
               \<and> (top d \<noteq> None \<or> item d \<noteq> None)"
    by (simp_all add: decoder_inv_def Let_def)
  show ?case
  proof (cases "endTop (scan d)")
    case True
    from et [OF True] l have f: "frames d = []" and t: "top d \<noteq> None \<or> item d \<noteq> None"
      by simp_all
    from t show ?thesis
    proof
      assume "top d \<noteq> None"
      then show ?thesis by (simp add: end_literal_fields)
    next
      assume "item d \<noteq> None"
      with f show ?thesis by (simp add: end_literal_fields)
    qed
  next
    case False
    obtain s' op where st: "run_step (scan d) (CHR '' '') = (s', op)"
      by (cases "run_step (scan d) (CHR '' '')")
    with Nil.prems(2) e False have "endTop s'"
      by (auto simp: scanner_eof_def Let_def split: if_splits)
    from run_step_space_endTop [OF st this False] lit ev l
    have "item d \<noteq> None" "frames d = []" by auto
    then show ?thesis by (simp add: end_literal_fields)
  qed
next
  case (Cons c cs)
  obtain s' op where st: "run_step (scan d) c = (s', op)"
    by (cases "run_step (scan d) c")
  show ?case
  proof (cases "op = scanError")
    case True
    with Cons.prems(2) st have e': "err s' = None" by simp
    have "step (scan d) \<noteq> StError"
    proof
      assume "step (scan d) = StError"
      with st have "s' = scan d" by (simp add: run_step_error_state)
      with e' Cons.prems(1) \<open>step (scan d) = StError\<close> show False
        by (simp add: decoder_inv_def Let_def)
    qed
    from run_step_scanError [OF st [unfolded True] this] e' show ?thesis by simp
  next
    case False
    from decoder_inv_step [OF Cons.prems(1) st False]
    have i: "decoder_inv (decode_byte d c)" .
    have "scan (decode_byte d c) = s'" by (simp add: scan_decode_byte st)
    with Cons.prems(2) st False have "checkValid_loop (scan (decode_byte d c)) cs = None"
      by simp
    from Cons.IH [OF i this] show ?thesis by simp
  qed
qed

lemma json_value_defined:
  assumes "checkValid data = None"
  shows "\<exists>j. json_value data = Some j"
proof -
  have "decoder_inv \<lparr>scan = scanner_reset, item = None, frames = [], top = None\<rparr>"
    by (simp add: decoder_inv_def scanner_reset_def in_literal_def)
  from decoder_inv_top [OF this] assms show ?thesis
    by (simp add: json_value_def checkValid_def)
qed

lemma Unmarshal_valid_text:
  assumes "checkValid data = None"
  shows "\<exists>j. json_value data = Some j \<and> Unmarshal store data v = store j v"
  using json_value_defined [OF assms] assms by (auto simp: Unmarshal_def)

section \<open>A decoder of struct fields returns type errors only\<close>

lemma foldl_preserves:
  assumes "\<And>acc x. P acc \<Longrightarrow> P (f acc x)" and "P a"
  shows "P (foldl f a xs)"
  using assms(2) by (induction xs arbitrary: a) (simp_all add: assms(1))

lemma store_string_type_error: "type_error_or_none (snd (store_string field j old))"
  by (cases j) (simp_all add: store_string_def type_error_or_none_def)

lemma saveError_type_error:
  "type_error_or_none saved \<Longrightarrow> type_error_or_none e \<Longrightarrow> type_error_or_none (saveError saved e)"
  by (cases saved) (simp_all add: saveError_def)

lemma store_errorResponse_Error_type_error:
  "type_error_or_none (snd acc) \<Longrightarrow> type_error_or_none (snd (store_errorResponse_Error acc kv))"
  using store_string_type_error
  by (auto simp: store_errorResponse_Error_def split: prod.splits
      intro!: saveError_type_error) (metis snd_conv)+

lemma store_errorResponse_member_type_error:
  "type_error_or_none (snd acc) \<Longrightarrow> type_error_or_none (snd (store_errorResponse_member acc kv))"
proof -
  assume a: "type_error_or_none (snd acc)"
  obtain v saved where acc: "acc = (v, saved)" by (cases acc)
  obtain k j where kv: "kv = (k, j)" by (cases kv)
  have f: "type_error_or_none (snd (foldl store_errorResponse_Error (v, saved) kvs))" for kvs
    using a acc by (intro foldl_preserves [where P = "\<lambda>acc. type_error_or_none (snd acc)"])
      (simp_all add: store_errorResponse_Error_type_error)
  have t: "type_error_or_none (Some (UnmarshalTypeError x y))" for x y
    by (simp add: type_error_or_none_def)
  from a acc kv f t show ?thesis
    by (cases j) (simp_all add: store_errorResponse_member_def saveError_type_error)
qed

lemma store_errorResponse_type_error:
  "type_error_or_none (snd (store_errorResponse j v))"
proof -
  have n: "type_error_or_none (snd (v, None))"
    by (simp add: type_error_or_none_def)
  have f: "type_error_or_none (snd (foldl store_errorResponse_member (v, None) kvs))" for kvs
    by (rule foldl_preserves [where P = "\<lambda>acc. type_error_or_none (snd acc)"])
      (simp_all only: store_errorResponse_member_type_error n)
  show ?thesis
  proof (cases j)
    case (JObject kvs)
    then show ?thesis using f by (simp add: store_errorResponse_def)
  qed (simp_all add: store_errorResponse_def type_error_or_none_def)
qed

lemma Unmarshal_errorResponse_SyntaxError:
  "Unmarshal store_errorResponse data v = (v', Some (SyntaxError m)) \<longleftrightarrow>
     checkValid data = Some m \<and> v' = v"
proof -
  have "store_errorResponse j v \<noteq> (v', Some (SyntaxError m))" for j
    using store_errorResponse_type_error [of j v]
    by (auto simp: type_error_or_none_def)
  then show ?thesis
    by (auto simp: Unmarshal_def split: option.splits)
qed


lemma Unmarshal_valid:
  "Unmarshal store data v = (v', Some e) \<Longrightarrow> (\<And>m. e \<noteq> SyntaxError m) \<Longrightarrow> checkValid data = None"
  by (auto simp: Unmarshal_def split: option.splits)

section \<open>Evaluating the JSON model on the bodies used below\<close>

lemma checkValid_empty: "checkValid [] = Some ''unexpected end of JSON input''"
  by code_simp

lemma checkValid_html:
  "checkValid ''<html>'' = Some ''invalid character '<' looking for beginning of value''"
  by code_simp

lemma checkValid_braces: "checkValid ''{}'' = None"
  by code_simp

lemma json_value_braces: "json_value ''{}'' = Some (JObject [])"
  by code_simp

lemma checkValid_brackets: "checkValid ''[]'' = None"
  by code_simp

lemma json_value_brackets: "json_value ''[]'' = Some (JArray [])"
  by code_simp

lemma checkValid_id_test: \<open>checkValid ''{"id":"test"}'' = None\<close>
  by code_simp

lemma json_value_id_test:
  \<open>json_value ''{"id":"test"}'' = Some (JObject [(''id'', JString ''test'')])\<close>
  by code_simp

lemma checkValid_vendor:
  \<open>checkValid ''{"error":{"summary":"Bad Request","detail":"x","code":"400000"}}'' = None\<close>
  by code_simp

lemma json_value_vendor:
  \<open>json_value ''{"error":{"summary":"Bad Request","detail":"x","code":"400000"}}'' =
    Some (JObject [(''error'', JObject [(''summary'', JString ''Bad Request''),
      (''detail'', JString ''x''), (''code'', JString ''400000'')])])\<close>
  by code_simp



lemma checkValid_TestDo: "checkValid TestDo_response = None"
  by code_simp

lemma json_value_TestDo:
  "json_value TestDo_response = Some (JObject [(''id'', JString ''test'')])"
  by code_simp

lemma foldName_names:
  "foldName ''id'' = ''id''" "foldName ''error'' = ''error''"
  "foldName ''summary'' = ''summary''" "foldName ''detail'' = ''detail''"
  "foldName ''code'' = ''code''"
  by code_simp+

lemma StatusText_400: "StatusText 400 = ''Bad Request''"
  by code_simp

lemma StatusText_202: "StatusText 202 = ''Accepted''"
  by code_simp

lemma Unmarshal_errorResponse_html:
  "Unmarshal store_errorResponse ''<html>'' errorResponse_zero =
    (errorResponse_zero,
     Some (SyntaxError ''invalid character '<' looking for beginning of value''))"
  by (simp add: Unmarshal_def checkValid_html)

lemma Unmarshal_errorResponse_braces:
  "Unmarshal store_errorResponse ''{}'' errorResponse_zero = (errorResponse_zero, None)"
  by (simp add: Unmarshal_def checkValid_braces json_value_braces store_errorResponse_def)

lemma Unmarshal_errorResponse_brackets:
  "Unmarshal store_errorResponse ''[]'' errorResponse_zero =
    (errorResponse_zero, Some (UnmarshalTypeError ''array'' []))"
  by (simp add: Unmarshal_def checkValid_brackets json_value_brackets store_errorResponse_def
      json_kind_def)

lemma checkValid_error_array: \<open>checkValid ''{"error":[]}'' = None\<close>
  by code_simp

lemma json_value_error_array:
  \<open>json_value ''{"error":[]}'' = Some (JObject [(''error'', JArray [])])\<close>
  by code_simp

lemma Unmarshal_errorResponse_error_array:
  \<open>Unmarshal store_errorResponse ''{"error":[]}'' errorResponse_zero =
    (errorResponse_zero, Some (UnmarshalTypeError ''array'' ''Error''))\<close>
  by (simp add: Unmarshal_def checkValid_error_array json_value_error_array
      store_errorResponse_def store_errorResponse_member_def saveError_def json_kind_def
      foldName_names del: foldName.simps)

lemma Unmarshal_errorResponse_vendor:
  \<open>Unmarshal store_errorResponse
      ''{"error":{"summary":"Bad Request","detail":"x","code":"400000"}}'' errorResponse_zero =
    (\<lparr>Summary = ''Bad Request'', Detail = ''x'', Code = ''400000''\<rparr>, None)\<close>
  by (simp add: Unmarshal_def checkValid_vendor json_value_vendor store_errorResponse_def
      store_errorResponse_member_def store_errorResponse_Error_def store_string_def
      saveError_def errorResponse_zero_def foldName_names del: foldName.simps)


lemma Unmarshal_DeleteProjectRequest_id_test:
  \<open>Unmarshal store_DeleteProjectRequest ''{"id":"test"}'' \<lparr>ID = []\<rparr> =
    (\<lparr>ID = ''test''\<rparr>, None)\<close>
  by (simp add: Unmarshal_def checkValid_id_test json_value_id_test
      store_DeleteProjectRequest_def store_DeleteProjectRequest_member_def store_string_def
      saveError_def foldName_names del: foldName.simps)

lemma Unmarshal_DeleteProjectRequest_TestDo:
  "Unmarshal store_DeleteProjectRequest TestDo_response \<lparr>ID = []\<rparr> = (\<lparr>ID = ''test''\<rparr>, None)"
  by (simp add: Unmarshal_def checkValid_TestDo json_value_TestDo
      store_DeleteProjectRequest_def store_DeleteProjectRequest_member_def store_string_def
      saveError_def foldName_names del: foldName.simps)

lemma Unmarshal_DeleteProjectRequest_html:
  "Unmarshal store_DeleteProjectRequest ''<html>'' \<lparr>ID = ''old''\<rparr> =
    (\<lparr>ID = ''old''\<rparr>,
     Some (SyntaxError ''invalid character '<' looking for beginning of value''))"
  by (simp add: Unmarshal_def checkValid_html)

lemma Unmarshal_DeleteProjectRequest_brackets:
  "Unmarshal store_DeleteProjectRequest ''[]'' \<lparr>ID = ''old''\<rparr> =
    (\<lparr>ID = ''old''\<rparr>, Some (UnmarshalTypeError ''array'' []))"
  by (simp add: Unmarshal_def checkValid_brackets json_value_brackets
      store_DeleteProjectRequest_def json_kind_def)

lemma Itoa_examples: "Itoa 25 = ''25''" "Itoa 2 = ''2''"
  by code_simp+

lemma validMethod_examples: "validMethod ''GET''" "validMethod ''POST''"
  by code_simp+

lemma canonical_names:
  "CanonicalMIMEHeaderKey ''Accept'' = ''Accept''"
  "CanonicalMIMEHeaderKey ''User-Agent'' = ''User-Agent''"
  "CanonicalMIMEHeaderKey ''Content-Type'' = ''Content-Type''"
  "CanonicalMIMEHeaderKey ''X-Tableau-Auth'' = ''X-Tableau-Auth''"
  by code_simp+

section \<open>The response handler\<close>

text \<open>
  A text that \<^verbatim>\<open>checkValid\<close> refuses is a syntax error whatever the target's type, and
  the target is not touched.
\<close>

lemma Unmarshal_syntax_error:
  "checkValid data = Some m \<Longrightarrow> Unmarshal store data v = (v, Some (SyntaxError m))"
  by (simp add: Unmarshal_def)

text \<open>
  When the body cannot be read, the handler returns the error of the read before it
  looks at the status; the target is not touched.  The statements below are about
  responses whose body has been read.
\<close>

lemma handleResponse_read_error:
  "Body res = Inl e \<Longrightarrow> handleResponse store res v = (Some e, v)"
  by (simp add: handleResponse_def)

text \<open>
  \<^bold>\<open>C1\<close>, as the code has it.  A response with status at least 400 whose body has been
  read and decodes without error to the zero value of the vendor's error shape (summary,
  detail and code all empty) has a body that is valid JSON, and gives the typed error
  with the internal code \<^verbatim>\<open>-1\<close>, the message
  \<^verbatim>\<open>internal error, response body doesn't match error type signature\<close>, and a metadata
  map of exactly two entries: the raw body and the HTTP status text.
\<close>

theorem handleResponse_shape_mismatch:
  assumes "Body res = Inr out" and "StatusCode res \<ge> 400"
    and "Unmarshal store_errorResponse out errorResponse_zero = (errorRes, None)"
    and "Summary errorRes = [] \<and> Detail errorRes = [] \<and> errorResponse.Code errorRes = []"
  shows "checkValid out = None
    \<and> handleResponse store res v =
    (Some (TableauError
       \<lparr>msg = ''internal error, response body doesn't match error type signature'',
        Code = ''-1'',
        Meta = [''body'' \<mapsto> out, ''http_status'' \<mapsto> StatusText (StatusCode res)]\<rparr>), v)"
proof -
  from assms(4) have "errorRes = errorResponse_zero"
    by (simp add: errorResponse_zero_def)
  with assms(1-3) have "handleResponse store res v =
    (Some (TableauError
       \<lparr>msg = ''internal error, response body doesn't match error type signature'',
        Code = ''-1'',
        Meta = [''body'' \<mapsto> out, ''http_status'' \<mapsto> StatusText (StatusCode res)]\<rparr>), v)"
    by (simp add: handleResponse_def ErrCodeInternal_def)
  moreover from assms(3) have "checkValid out = None"
    by (cases "checkValid out") (simp_all add: Unmarshal_def)
  ultimately show ?thesis by simp
qed

theorem handleResponse_shape_mismatch_witness:
  "checkValid ''{}'' = None
   \<and> handleResponse store_DeleteProjectRequest \<lparr>StatusCode = 400, Body = Inr ''{}''\<rparr> None =
    (Some (TableauError
       \<lparr>msg = ''internal error, response body doesn't match error type signature'',
        Code = ''-1'',
        Meta = [''body'' \<mapsto> ''{}'', ''http_status'' \<mapsto> ''Bad Request'']\<rparr>), None)"
  using handleResponse_shape_mismatch
    [of "\<lparr>StatusCode = 400, Body = Inr ''{}''\<rparr>" "''{}''" errorResponse_zero
      store_DeleteProjectRequest None, OF _ _ Unmarshal_errorResponse_braces]
  by (simp add: errorResponse_zero_def StatusText_400)

text \<open>
  Valid JSON is not enough.  The bodies \<^verbatim>\<open>[]\<close> and \<^verbatim>\<open>{"error":[]}\<close> are valid JSON and
  leave summary, detail and code empty, but decoding them returns a type error, and at
  status 400 the handler returns that error as it is, not the typed error.
\<close>

theorem handleResponse_shape_mismatch_counterexample:
  \<open>checkValid ''[]'' = None
   \<and> fst (Unmarshal store_errorResponse ''[]'' errorResponse_zero) = errorResponse_zero
   \<and> Summary errorResponse_zero = [] \<and> Detail errorResponse_zero = []
   \<and> errorResponse.Code errorResponse_zero = []
   \<and> handleResponse store_DeleteProjectRequest \<lparr>StatusCode = 400, Body = Inr ''[]''\<rparr> None =
       (Some (UnmarshalTypeError ''array'' []), None)
   \<and> fst (handleResponse store_DeleteProjectRequest
            \<lparr>StatusCode = 400, Body = Inr ''[]''\<rparr> None) \<noteq>
       Some (TableauError
         \<lparr>msg = ''internal error, response body doesn't match error type signature'',
          Code = ''-1'',
          Meta = [''body'' \<mapsto> ''[]'', ''http_status'' \<mapsto> ''Bad Request'']\<rparr>)
   \<and> checkValid ''{"error":[]}'' = None
   \<and> fst (Unmarshal store_errorResponse ''{"error":[]}'' errorResponse_zero) =
       errorResponse_zero
   \<and> handleResponse store_DeleteProjectRequest
        \<lparr>StatusCode = 400, Body = Inr ''{"error":[]}''\<rparr> None =
       (Some (UnmarshalTypeError ''array'' ''Error''), None)\<close>
proof -
  have z: "Summary errorResponse_zero = [] \<and> Detail errorResponse_zero = []
      \<and> errorResponse.Code errorResponse_zero = []"
    by (simp add: errorResponse_zero_def)
  have h: "handleResponse store_DeleteProjectRequest \<lparr>StatusCode = 400, Body = Inr ''[]''\<rparr> None =
      (Some (UnmarshalTypeError ''array'' []), None)"
    \<open>handleResponse store_DeleteProjectRequest
        \<lparr>StatusCode = 400, Body = Inr ''{"error":[]}''\<rparr> None =
      (Some (UnmarshalTypeError ''array'' ''Error''), None)\<close>
    by (simp_all add: handleResponse_def Unmarshal_errorResponse_brackets
        Unmarshal_errorResponse_error_array)
  from z h show ?thesis
    by (simp add: checkValid_brackets checkValid_error_array Unmarshal_errorResponse_brackets
        Unmarshal_errorResponse_error_array)
qed

text \<open>
  \<^bold>\<open>C2.\<close>  A response with status at least 400 whose body has been read and fails to
  decode into the vendor's error shape: when the failure is a syntax error, which is
  when the body is not a valid JSON text, the handler returns the typed error with the
  internal code \<^verbatim>\<open>-1\<close>, the message \<^verbatim>\<open>malformed error response body received\<close> and the
  metadata raw body, text of the syntax error and HTTP status text; any other decode
  error, which arises on a valid text, is returned as it is.  In both cases the target
  is as before.
\<close>

theorem handleResponse_error_decode_failure:
  assumes "Body res = Inr out" and "StatusCode res \<ge> 400"
    and "Unmarshal store_errorResponse out errorResponse_zero = (errorRes, Some e)"
  shows "(\<forall>m. e = SyntaxError m \<longrightarrow>
           checkValid out = Some m
           \<and> handleResponse store res v =
             (Some (TableauError
                \<lparr>msg = ''malformed error response body received'',
                 Code = ''-1'',
                 Meta = [''body'' \<mapsto> out, ''err'' \<mapsto> m,
                         ''http_status'' \<mapsto> StatusText (StatusCode res)]\<rparr>), v))
       \<and> ((\<forall>m. e \<noteq> SyntaxError m) \<longrightarrow>
            checkValid out = None \<and> handleResponse store res v = (Some e, v))"
proof -
  have valid: "checkValid out = None" if "\<forall>m. e \<noteq> SyntaxError m"
    using assms(3) that by (auto dest: Unmarshal_valid)
  have invalid: "checkValid out = Some m" if "e = SyntaxError m" for m
    using assms(3) that by (simp add: Unmarshal_errorResponse_SyntaxError)
  from assms valid invalid show ?thesis
    by (cases e) (simp_all add: handleResponse_def ErrCodeInternal_def)
qed

theorem handleResponse_error_decode_failure_witness:
  "handleResponse store_DeleteProjectRequest \<lparr>StatusCode = 400, Body = Inr ''<html>''\<rparr> None =
     (Some (TableauError
        \<lparr>msg = ''malformed error response body received'',
         Code = ''-1'',
         Meta = [''body'' \<mapsto> ''<html>'',
                 ''err'' \<mapsto> ''invalid character '<' looking for beginning of value'',
                 ''http_status'' \<mapsto> ''Bad Request'']\<rparr>), None)
   \<and> handleResponse store_DeleteProjectRequest \<lparr>StatusCode = 400, Body = Inr ''[]''\<rparr> None =
     (Some (UnmarshalTypeError ''array'' []), None)"
  using handleResponse_error_decode_failure
    [of "\<lparr>StatusCode = 400, Body = Inr ''<html>''\<rparr>" "''<html>''" errorResponse_zero
      "SyntaxError ''invalid character '<' looking for beginning of value''"
      store_DeleteProjectRequest None, OF _ _ Unmarshal_errorResponse_html]
    handleResponse_error_decode_failure
    [of "\<lparr>StatusCode = 400, Body = Inr ''[]''\<rparr>" "''[]''" errorResponse_zero
      "UnmarshalTypeError ''array'' []"
      store_DeleteProjectRequest None, OF _ _ Unmarshal_errorResponse_brackets]
  by (simp add: StatusText_400)

text \<open>
  \<^bold>\<open>C3.\<close>  A response with status below 400 whose body has been read: when the target
  is \<^verbatim>\<open>nil\<close> or the status is 204, the handler returns \<^verbatim>\<open>nil\<close> and leaves the target as it
  was.  No decode takes place: the equation holds for every decoder \<open>store\<close> and every
  body, a non-empty body on a 204 with a target supplied included.
\<close>

theorem handleResponse_short_circuit:
  assumes "Body res = Inr out" and "StatusCode res < 400"
    and "v = None \<or> StatusCode res = 204"
  shows "handleResponse store res v = (None, v)"
  using assms
  by (auto simp: handleResponse_def StatusNoContent_def split: option.splits)

theorem handleResponse_short_circuit_witness:
  \<open>handleResponse store_DeleteProjectRequest
      \<lparr>StatusCode = 204, Body = Inr ''{"id":"test"}''\<rparr> (Some \<lparr>ID = ''old''\<rparr>) =
     (None, Some \<lparr>ID = ''old''\<rparr>)
   \<and> handleResponse store_DeleteProjectRequest
      \<lparr>StatusCode = 200, Body = Inr ''{"id":"test"}''\<rparr> None = (None, None)\<close>
  using handleResponse_short_circuit
    [of \<open>\<lparr>StatusCode = 204, Body = Inr ''{"id":"test"}''\<rparr>\<close> \<open>''{"id":"test"}''\<close>
      "Some \<lparr>ID = ''old''\<rparr>" store_DeleteProjectRequest]
    handleResponse_short_circuit
    [of \<open>\<lparr>StatusCode = 200, Body = Inr ''{"id":"test"}''\<rparr>\<close> \<open>''{"id":"test"}''\<close>
      None store_DeleteProjectRequest]
  by simp

text \<open>
  \<^bold>\<open>C4.\<close>  A response with a status below 400 other than 204, a body that has been read
  and a target that is not \<^verbatim>\<open>nil\<close>: the handler decodes the body into the target.  It
  returns \<^verbatim>\<open>nil\<close> when the decode succeeds; a syntax error gives the typed error with the
  internal code \<^verbatim>\<open>-1\<close>, the message \<^verbatim>\<open>malformed response body received\<close> and the metadata
  raw body and HTTP status text; any other decode error is returned as it is.  The body
  \<^verbatim>\<open>{"id":"test"}\<close> with status 202 and an empty \<^verbatim>\<open>DeleteProjectRequest\<close> as target gives
  \<^verbatim>\<open>ID = "test"\<close> and \<^verbatim>\<open>nil\<close>.
\<close>

theorem handleResponse_decode:
  assumes "Body res = Inr out" and "StatusCode res < 400" and "StatusCode res \<noteq> 204"
    and "Unmarshal store out t = (t', r)"
  shows \<open>(r = None \<longrightarrow> handleResponse store res (Some t) = (None, Some t'))
       \<and> (\<forall>m. r = Some (SyntaxError m) \<longrightarrow>
             handleResponse store res (Some t) =
               (Some (TableauError
                  \<lparr>msg = ''malformed response body received'',
                   Code = ''-1'',
                   Meta = [''body'' \<mapsto> out,
                           ''http_status'' \<mapsto> StatusText (StatusCode res)]\<rparr>), Some t'))
       \<and> (\<forall>e. r = Some e \<and> (\<forall>m. e \<noteq> SyntaxError m) \<longrightarrow>
             handleResponse store res (Some t) = (Some e, Some t'))
       \<and> handleResponse store_DeleteProjectRequest
           \<lparr>StatusCode = 202, Body = Inr ''{"id":"test"}''\<rparr> (Some \<lparr>ID = []\<rparr>) =
           (None, Some \<lparr>ID = ''test''\<rparr>)\<close>
proof -
  have ex: \<open>handleResponse store_DeleteProjectRequest
           \<lparr>StatusCode = 202, Body = Inr ''{"id":"test"}''\<rparr> (Some \<lparr>ID = []\<rparr>) =
           (None, Some \<lparr>ID = ''test''\<rparr>)\<close>
    by (simp add: handleResponse_def StatusNoContent_def
        Unmarshal_DeleteProjectRequest_id_test)
  have gen: "handleResponse store res (Some t) =
    (case r of
       None \<Rightarrow> (None, Some t')
     | Some e \<Rightarrow>
        (case e of
           SyntaxError m \<Rightarrow>
             (Some (TableauError
                \<lparr>msg = ''malformed response body received'',
                 Code = ''-1'',
                 Meta = [''body'' \<mapsto> out,
                         ''http_status'' \<mapsto> StatusText (StatusCode res)]\<rparr>), Some t')
         | _ \<Rightarrow> (Some e, Some t')))"
    using assms
    by (simp add: handleResponse_def StatusNoContent_def ErrCodeInternal_def
        split: option.splits go_error.splits)
  show ?thesis
    using ex by (auto simp: gen split: go_error.splits)
qed

theorem handleResponse_decode_witness:
  \<open>handleResponse store_DeleteProjectRequest
      \<lparr>StatusCode = 202, Body = Inr ''{"id":"test"}''\<rparr> (Some \<lparr>ID = []\<rparr>) =
     (None, Some \<lparr>ID = ''test''\<rparr>)
   \<and> handleResponse store_DeleteProjectRequest
      \<lparr>StatusCode = 202, Body = Inr TestDo_response\<rparr> (Some \<lparr>ID = []\<rparr>) =
     (None, Some \<lparr>ID = ''test''\<rparr>)
   \<and> handleResponse store_DeleteProjectRequest
      \<lparr>StatusCode = 202, Body = Inr ''<html>''\<rparr> (Some \<lparr>ID = ''old''\<rparr>) =
     (Some (TableauError
        \<lparr>msg = ''malformed response body received'',
         Code = ''-1'',
         Meta = [''body'' \<mapsto> ''<html>'', ''http_status'' \<mapsto> ''Accepted'']\<rparr>),
      Some \<lparr>ID = ''old''\<rparr>)
   \<and> handleResponse store_DeleteProjectRequest
      \<lparr>StatusCode = 202, Body = Inr ''[]''\<rparr> (Some \<lparr>ID = ''old''\<rparr>) =
     (Some (UnmarshalTypeError ''array'' []), Some \<lparr>ID = ''old''\<rparr>)\<close>
  using handleResponse_decode
    [of \<open>\<lparr>StatusCode = 202, Body = Inr ''{"id":"test"}''\<rparr>\<close> \<open>''{"id":"test"}''\<close>
      store_DeleteProjectRequest "\<lparr>ID = []\<rparr>" "\<lparr>ID = ''test''\<rparr>" None,
      OF _ _ _ Unmarshal_DeleteProjectRequest_id_test]
    handleResponse_decode
    [of "\<lparr>StatusCode = 202, Body = Inr TestDo_response\<rparr>" TestDo_response
      store_DeleteProjectRequest "\<lparr>ID = []\<rparr>" "\<lparr>ID = ''test''\<rparr>" None,
      OF _ _ _ Unmarshal_DeleteProjectRequest_TestDo]
    handleResponse_decode
    [of "\<lparr>StatusCode = 202, Body = Inr ''<html>''\<rparr>" "''<html>''"
      store_DeleteProjectRequest "\<lparr>ID = ''old''\<rparr>" "\<lparr>ID = ''old''\<rparr>"
      "Some (SyntaxError ''invalid character '<' looking for beginning of value'')",
      OF _ _ _ Unmarshal_DeleteProjectRequest_html]
    handleResponse_decode
    [of "\<lparr>StatusCode = 202, Body = Inr ''[]''\<rparr>" "''[]''"
      store_DeleteProjectRequest "\<lparr>ID = ''old''\<rparr>" "\<lparr>ID = ''old''\<rparr>"
      "Some (UnmarshalTypeError ''array'' [])",
      OF _ _ _ Unmarshal_DeleteProjectRequest_brackets]
  by (simp add: StatusText_202)

text \<open>
  \<^bold>\<open>C5.\<close>  A response with status at least 400 whose body has been read and decodes,
  without error, to a vendor error shape that is not the zero value gives the typed
  error whose message is the vendor's summary, the string \<^verbatim>\<open>": "\<close> and the vendor's
  detail, in this order, and whose code is the vendor's code.
\<close>

theorem handleResponse_vendor_error:
  assumes "Body res = Inr out" and "StatusCode res \<ge> 400"
    and "Unmarshal store_errorResponse out errorResponse_zero = (errorRes, None)"
    and "errorRes \<noteq> errorResponse_zero"
  shows "handleResponse store res v =
    (Some (TableauError
       \<lparr>msg = Summary errorRes @ '': '' @ Detail errorRes,
        Code = errorResponse.Code errorRes,
        Meta = Map.empty\<rparr>), v)"
  using assms by (simp add: handleResponse_def)

theorem handleResponse_vendor_error_witness:
  \<open>handleResponse store_DeleteProjectRequest
      \<lparr>StatusCode = 400,
       Body = Inr ''{"error":{"summary":"Bad Request","detail":"x","code":"400000"}}''\<rparr>
      None =
     (Some (TableauError
        \<lparr>msg = ''Bad Request: x'', Code = ''400000'', Meta = Map.empty\<rparr>), None)\<close>
  using handleResponse_vendor_error
    [of \<open>\<lparr>StatusCode = 400,
          Body = Inr ''{"error":{"summary":"Bad Request","detail":"x","code":"400000"}}''\<rparr>\<close>
      \<open>''{"error":{"summary":"Bad Request","detail":"x","code":"400000"}}''\<close>
      "\<lparr>Summary = ''Bad Request'', Detail = ''x'', Code = ''400000''\<rparr>"
      store_DeleteProjectRequest None,
      OF _ _ Unmarshal_errorResponse_vendor]
  by (simp add: errorResponse_zero_def)

text \<open>
  \<^bold>\<open>C9.\<close>  For a response with status at least 400 the handler returns an error, so it
  never reaches the success branch, and the target is as the caller supplied it.  The
  error is the same for every target and every decoder of the target's type: nothing is
  decoded into the target.
\<close>

theorem handleResponse_error_branch_frame:
  assumes "StatusCode res \<ge> 400"
  shows "snd (handleResponse store res v) = v
       \<and> fst (handleResponse store res v) \<noteq> None
       \<and> fst (handleResponse store res v) = fst (handleResponse store' res v')"
  using assms
  by (auto simp: handleResponse_def split: sum.splits prod.splits option.splits go_error.splits)

theorem handleResponse_error_branch_frame_witness:
  \<open>snd (handleResponse store_DeleteProjectRequest
      \<lparr>StatusCode = 400, Body = Inr ''{"id":"test"}''\<rparr> (Some \<lparr>ID = ''old''\<rparr>)) =
     Some \<lparr>ID = ''old''\<rparr>
   \<and> fst (handleResponse store_DeleteProjectRequest
      \<lparr>StatusCode = 400, Body = Inr ''{"id":"test"}''\<rparr> (Some \<lparr>ID = ''old''\<rparr>)) \<noteq> None
   \<and> fst (handleResponse store_DeleteProjectRequest
      \<lparr>StatusCode = 400, Body = Inr ''{"id":"test"}''\<rparr> (Some \<lparr>ID = ''old''\<rparr>)) =
     fst (handleResponse store_errorResponse
      \<lparr>StatusCode = 400, Body = Inr ''{"id":"test"}''\<rparr> None)\<close>
  by (rule handleResponse_error_branch_frame) simp





section \<open>Building a request\<close>

lemma Header_Set_fields:
  "Method (Header_Set k v req) = Method req"
  "URL (Header_Set k v req) = URL req"
  "RequestBody (Header_Set k v req) = RequestBody req"
  "Header (Header_Set k v req) = (Header req)(CanonicalMIMEHeaderKey k \<mapsto> [v])"
  by (simp_all add: Header_Set_def)

lemma session_headers_fields:
  "Method (foldl (\<lambda>r kv. Header_Set (fst kv) (snd kv) r) req hs) = Method req"
  "URL (foldl (\<lambda>r kv. Header_Set (fst kv) (snd kv) r) req hs) = URL req"
  "RequestBody (foldl (\<lambda>r kv. Header_Set (fst kv) (snd kv) r) req hs) = RequestBody req"
  by (induction hs arbitrary: req) (simp_all add: Header_Set_fields)

lemma session_headers_other:
  "\<forall>kv \<in> set hs. CanonicalMIMEHeaderKey (fst kv) \<noteq> k \<Longrightarrow>
    Header (foldl (\<lambda>r kv. Header_Set (fst kv) (snd kv) r) req hs) k = Header req k"
  by (induction hs arbitrary: req) (auto simp: Header_Set_fields)

lemma http_NewRequest_fields:
  "http_NewRequest lib method u body = Inr req \<Longrightarrow> RequestBody req = body \<and> Header req = Map.empty"
  by (auto simp: http_NewRequest_def Let_def split: if_splits sum.splits)

lemma http_NewRequest_Marshal:
  "http_NewRequest (lib\<lparr>Marshal := f\<rparr>) method u body = http_NewRequest lib method u body"
  by (simp add: http_NewRequest_def Let_def)

lemma newRequest_example_POST:
  \<open>newRequest library_example client_example ''POST'' ''sites/site-id/projects''
      (Some ''{"project":{"name":"x"}}'') =
    Inr \<lparr>Method = ''POST'',
         URL = ''https://tableau.example/api/3.4/sites/site-id/projects'',
         Header = [''Content-Type'' \<mapsto> [''application/json''],
                   ''Accept'' \<mapsto> [''application/json''],
                   ''User-Agent'' \<mapsto> [''go-tableau/v0.0.1''],
                   ''X-Tableau-Auth'' \<mapsto> [''token'']],
         RequestBody = Some (''{"project":{"name":"x"}}'' @ [CHR 0x0A])\<rparr>\<close>
  by (simp add: newRequest_def library_example_def client_example_def signIn_store_def
      NewClient_literal_def map_assign_def MethodGet_def Encode_def http_NewRequest_def
      validMethod_examples Header_Set_def canonical_names jsonMediaType_def userAgent_def
      libraryVersion_def)

lemma newRequest_example_GET:
  \<open>newRequest library_example (client_example\<lparr>UserAgent := ''custom/1.0''\<rparr>) ''GET''
      ''sites/site-id/projects'' (Some ''{"project":{"name":"x"}}'') =
    Inr \<lparr>Method = ''GET'',
         URL = ''https://tableau.example/api/3.4/sites/site-id/projects'',
         Header = [''Accept'' \<mapsto> [''application/json''],
                   ''User-Agent'' \<mapsto> [''custom/1.0''],
                   ''X-Tableau-Auth'' \<mapsto> [''token'']],
         RequestBody = None\<rparr>\<close>
  by (simp add: newRequest_def library_example_def client_example_def signIn_store_def
      NewClient_literal_def map_assign_def MethodGet_def Encode_def http_NewRequest_def
      validMethod_examples Header_Set_def canonical_names jsonMediaType_def userAgent_def
      libraryVersion_def)

text \<open>
  \<^bold>\<open>C7\<close>, as the code has it.  When \<open>newRequest\<close> returns a request for a client none of
  whose session headers is named \<^verbatim>\<open>Accept\<close>, \<^verbatim>\<open>User-Agent\<close> or \<^verbatim>\<open>Content-Type\<close> (the only
  session header the package ever stores is \<^verbatim>\<open>X-Tableau-Auth\<close>): with the method \<^verbatim>\<open>GET\<close>
  the request has no body, whatever the body argument; with any other method the
  \<^verbatim>\<open>Content-Type\<close> header is \<^verbatim>\<open>application/json\<close>, a body that is not \<^verbatim>\<open>nil\<close> is encoded
  as JSON (and a newline) into the payload, and a \<^verbatim>\<open>nil\<close> body gives an empty payload;
  for every method the \<^verbatim>\<open>Accept\<close> header is \<^verbatim>\<open>application/json\<close> and the \<^verbatim>\<open>User-Agent\<close>
  header is the client's field \<^verbatim>\<open>UserAgent\<close>.  With a \<^verbatim>\<open>nil\<close> body the result does not
  depend on the encoder, so there is no serialization error.  \<^verbatim>\<open>NewClient\<close> sets the
  field to \<^verbatim>\<open>go-tableau/v0.0.1\<close>, and after sign-in the session headers are
  \<^verbatim>\<open>X-Tableau-Auth\<close> alone.
\<close>

theorem newRequest_request:
  assumes "newRequest lib c method path body = Inr req"
    and "\<forall>kv \<in> set (headers c).
           CanonicalMIMEHeaderKey (fst kv) \<notin> {''Accept'', ''User-Agent'', ''Content-Type''}"
  shows "(method = ''GET'' \<longrightarrow> RequestBody req = None)
       \<and> (method \<noteq> ''GET'' \<longrightarrow>
            Header_Get req ''Content-Type'' = ''application/json''
            \<and> (body = None \<longrightarrow> RequestBody req = Some [])
            \<and> (\<forall>b. body = Some b \<longrightarrow>
                  (\<exists>bs. Marshal lib b = Inr bs \<and> RequestBody req = Some (bs @ [CHR 0x0A]))))
       \<and> Header_Get req ''Accept'' = ''application/json''
       \<and> Header_Get req ''User-Agent'' = UserAgent c
       \<and> newRequest (lib\<lparr>Marshal := f\<rparr>) c method path None = newRequest lib c method path None
       \<and> UserAgent (signIn_store token siteID (NewClient_literal url)) = ''go-tableau/v0.0.1''
       \<and> map fst (headers (signIn_store token siteID (NewClient_literal url))) = [''X-Tableau-Auth'']"
proof -
  from assms(1) obtain u where u: "ResolveReference lib (baseURL c) path = Inr u"
    by (auto simp: newRequest_def split: sum.splits)
  define inner where "inner =
    (if method = MethodGet then http_NewRequest lib method u None
     else
       (case (case body of None \<Rightarrow> Inr [] | Some b \<Rightarrow> Encode lib b) of
          Inl e \<Rightarrow> Inl e
        | Inr buf \<Rightarrow>
           (case http_NewRequest lib method u (Some buf) of
              Inl e \<Rightarrow> Inl e
            | Inr req \<Rightarrow> Inr (Header_Set ''Content-Type'' jsonMediaType req))))"
  from assms(1) u obtain r0 where r0: "inner = Inr r0"
    and req: "req = foldl (\<lambda>r kv. Header_Set (fst kv) (snd kv) r)
                  (Header_Set ''User-Agent'' (UserAgent c)
                    (Header_Set ''Accept'' jsonMediaType r0)) (headers c)"
    by (auto simp: newRequest_def inner_def split: sum.splits)
  let ?r1 = "Header_Set ''User-Agent'' (UserAgent c) (Header_Set ''Accept'' jsonMediaType r0)"
  have body_req: "RequestBody req = RequestBody r0"
    by (simp add: req session_headers_fields Header_Set_fields)
  have hdr: "Header req k = Header ?r1 k"
    if "k \<in> {''Accept'', ''User-Agent'', ''Content-Type''}" for k
    using assms(2) that unfolding req by (intro session_headers_other) auto
  have accept: "Header_Get req ''Accept'' = ''application/json''"
    using hdr [of "''Accept''"]
    by (simp add: Header_Get_def Header_Set_fields canonical_names jsonMediaType_def)
  have ua: "Header_Get req ''User-Agent'' = UserAgent c"
    using hdr [of "''User-Agent''"]
    by (simp add: Header_Get_def Header_Set_fields canonical_names)
  have get: "RequestBody req = None" if "method = ''GET''"
    using that r0 body_req
    by (auto simp: inner_def MethodGet_def dest: http_NewRequest_fields)
  have other: "Header_Get req ''Content-Type'' = ''application/json''
            \<and> (body = None \<longrightarrow> RequestBody req = Some [])
            \<and> (\<forall>b. body = Some b \<longrightarrow>
                  (\<exists>bs. Marshal lib b = Inr bs \<and> RequestBody req = Some (bs @ [CHR 0x0A])))"
    if m: "method \<noteq> ''GET''"
  proof -
    from m r0 obtain buf r where buf: "(case body of None \<Rightarrow> Inr [] | Some b \<Rightarrow> Encode lib b) = Inr buf"
      and r: "http_NewRequest lib method u (Some buf) = Inr r"
      and r0': "r0 = Header_Set ''Content-Type'' jsonMediaType r"
      by (auto simp: inner_def MethodGet_def split: sum.splits)
    from r have rb: "RequestBody r0 = Some buf"
      by (auto simp: r0' Header_Set_fields dest: http_NewRequest_fields)
    have ct: "Header_Get req ''Content-Type'' = ''application/json''"
      using hdr [of "''Content-Type''"]
      by (simp add: Header_Get_def Header_Set_fields canonical_names jsonMediaType_def r0')
    from buf rb body_req ct show ?thesis
      by (auto simp: Encode_def split: sum.splits option.splits)
  qed
  have indep: "newRequest (lib\<lparr>Marshal := f\<rparr>) c method path None = newRequest lib c method path None"
    by (simp add: newRequest_def http_NewRequest_Marshal cong: sum.case_cong if_cong)
  have init: "UserAgent (signIn_store token siteID (NewClient_literal url)) = ''go-tableau/v0.0.1''
       \<and> map fst (headers (signIn_store token siteID (NewClient_literal url))) = [''X-Tableau-Auth'']"
    by (simp add: signIn_store_def NewClient_literal_def userAgent_def libraryVersion_def
        map_assign_def)
  from get other accept ua indep init show ?thesis by blast
qed

theorem newRequest_request_witness:
  \<open>Header_Get
     \<lparr>Method = ''POST'',
      URL = ''https://tableau.example/api/3.4/sites/site-id/projects'',
      Header = [''Content-Type'' \<mapsto> [''application/json''],
                ''Accept'' \<mapsto> [''application/json''],
                ''User-Agent'' \<mapsto> [''go-tableau/v0.0.1''],
                ''X-Tableau-Auth'' \<mapsto> [''token'']],
      RequestBody = Some (''{"project":{"name":"x"}}'' @ [CHR 0x0A])\<rparr> ''User-Agent'' =
    UserAgent client_example
   \<and> UserAgent client_example = ''go-tableau/v0.0.1''
   \<and> Header_Get
     \<lparr>Method = ''GET'',
      URL = ''https://tableau.example/api/3.4/sites/site-id/projects'',
      Header = [''Accept'' \<mapsto> [''application/json''],
                ''User-Agent'' \<mapsto> [''custom/1.0''],
                ''X-Tableau-Auth'' \<mapsto> [''token'']],
      RequestBody = None\<rparr> ''Accept'' = ''application/json''\<close>
proof -
  have h: "\<forall>kv \<in> set (headers client_example).
      CanonicalMIMEHeaderKey (fst kv) \<notin> {''Accept'', ''User-Agent'', ''Content-Type''}"
    by (simp add: client_example_def signIn_store_def NewClient_literal_def map_assign_def
        canonical_names)
  then have h': "\<forall>kv \<in> set (headers (client_example\<lparr>UserAgent := ''custom/1.0''\<rparr>)).
      CanonicalMIMEHeaderKey (fst kv) \<notin> {''Accept'', ''User-Agent'', ''Content-Type''}"
    by simp
  from newRequest_request [OF newRequest_example_POST h]
    newRequest_request [OF newRequest_example_GET h']
  show ?thesis
    by (simp add: client_example_def)
qed

text \<open>
  The claim as the specification words it fails for a client whose exported field
  \<^verbatim>\<open>UserAgent\<close> has been assigned: the header carries the assigned string, not the
  product identifier.
\<close>

theorem newRequest_user_agent_counterexample:
  \<open>newRequest library_example (client_example\<lparr>UserAgent := ''custom/1.0''\<rparr>) ''GET''
      ''sites/site-id/projects'' (Some ''{"project":{"name":"x"}}'') =
    Inr \<lparr>Method = ''GET'',
         URL = ''https://tableau.example/api/3.4/sites/site-id/projects'',
         Header = [''Accept'' \<mapsto> [''application/json''],
                   ''User-Agent'' \<mapsto> [''custom/1.0''],
                   ''X-Tableau-Auth'' \<mapsto> [''token'']],
         RequestBody = None\<rparr>
   \<and> ''custom/1.0'' \<noteq> userAgent\<close>
  by (simp add: newRequest_example_GET userAgent_def libraryVersion_def)

section \<open>Properties of the query options\<close>

lemma option_of_allocated:
  "option_of s \<lparr>URLValues = Some m\<rparr> =
    Inr (\<lparr>URLValues = Some (if sets_parameter s then m(parameter s \<mapsto> [rendered s]) else m)\<rparr>, None)"
  by (cases s)
    (simp_all add: WithPageSize_def WithPageNumber_def WithFilterExpression_def
      WithSortExpression_def Values_Set_def)

lemma option_of_default: "is_default s \<Longrightarrow> option_of s opt = Inr (opt, None)"
  by (cases s)
    (simp_all add: WithPageSize_def WithPageNumber_def WithFilterExpression_def
      WithSortExpression_def)

lemma sets_parameter_not_default: "sets_parameter s \<Longrightarrow> \<not> is_default s"
  by (cases s) auto

lemma option_of_error_nil: "option_of s q = Inr (q', e) \<Longrightarrow> e = None"
  by (cases s)
    (auto simp: WithPageSize_def WithPageNumber_def WithFilterExpression_def
      WithSortExpression_def split: if_splits sum.splits)

lemma Query_loop_allocated:
  "Query_loop (map option_of specs) \<lparr>URLValues = Some m\<rparr> =
    Inr \<lparr>URLValues = Some (foldl (\<lambda>m s. if sets_parameter s then m(parameter s \<mapsto> [rendered s]) else m) m specs)\<rparr>"
  by (induction specs arbitrary: m) (simp_all add: option_of_allocated)

lemma foldl_params_other:
  "k \<notin> parameter ` set specs \<Longrightarrow>
    foldl (\<lambda>m s. if sets_parameter s then m(parameter s \<mapsto> [rendered s]) else m) m specs k = m k"
  by (induction specs arbitrary: m) auto

lemma foldl_params_set:
  "distinct (map parameter specs) \<Longrightarrow> s \<in> set specs \<Longrightarrow> sets_parameter s \<Longrightarrow>
    foldl (\<lambda>m s. if sets_parameter s then m(parameter s \<mapsto> [rendered s]) else m) m specs (parameter s)
      = Some [rendered s]"
proof (induction specs arbitrary: m)
  case Nil
  then show ?case by simp
next
  case (Cons a specs)
  show ?case
  proof (cases "s = a")
    case True
    with Cons.prems have "parameter s \<notin> parameter ` set specs" by auto
    with True Cons.prems show ?thesis by (simp add: foldl_params_other)
  next
    case False
    with Cons show ?thesis by auto
  qed
qed

lemma Query_loop_no_error_panic:
  "Query_loop (map option_of specs) q \<noteq> Inl (PanicError e)"
proof (induction specs arbitrary: q)
  case Nil
  then show ?case by simp
next
  case (Cons s specs)
  show ?case
  proof (cases "option_of s q")
    case (Inl p)
    then have "p \<noteq> PanicError e"
      by (cases s)
        (auto simp: WithPageSize_def WithPageNumber_def WithFilterExpression_def
          WithSortExpression_def Values_Set_def split: if_splits sum.splits option.splits)
    with Inl show ?thesis by simp
  next
    case (Inr r)
    obtain q' e' where r: "r = (q', e')" by (cases r)
    with Inr have "e' = None" by (auto dest: option_of_error_nil)
    with Inr r Cons.IH show ?thesis by simp
  qed
qed

text \<open>
  \<^bold>\<open>C8.\<close>  \<^verbatim>\<open>WithPageSize(0)\<close> leaves the options as they are; \<^verbatim>\<open>WithPageSize(25)\<close> on the
  options that \<^verbatim>\<open>Query\<close> starts from gives the one parameter \<^verbatim>\<open>pageSize=25\<close>; an option of
  any of the four constructors changes the options only when its value is not the
  default (not zero, not empty), and then it sets its own parameter and no other; and
  over a sequence of options with distinct parameter names the loop of \<^verbatim>\<open>Query\<close> ends
  with the parameter of every option that set one, the parameters that no option names
  being as before.
\<close>

theorem query_options:
  "WithPageSize 0 opt = Inr (opt, None)
   \<and> WithPageSize 25 Query_queryOpts = Inr (\<lparr>URLValues = Some [''pageSize'' \<mapsto> [''25'']]\<rparr>, None)
   \<and> (\<forall>s opt opt' e. option_of s opt = Inr (opt', e) \<and> opt' \<noteq> opt \<longrightarrow> \<not> is_default s)
   \<and> (\<forall>s m. option_of s \<lparr>URLValues = Some m\<rparr> =
         Inr (\<lparr>URLValues = Some (if sets_parameter s then m(parameter s \<mapsto> [rendered s]) else m)\<rparr>, None))
   \<and> (\<forall>specs m. distinct (map parameter specs) \<longrightarrow>
         (\<exists>m'. Query_loop (map option_of specs) \<lparr>URLValues = Some m\<rparr> = Inr \<lparr>URLValues = Some m'\<rparr>
            \<and> (\<forall>s \<in> set specs. sets_parameter s \<longrightarrow> m' (parameter s) = Some [rendered s])
            \<and> (\<forall>k. k \<notin> parameter ` set specs \<longrightarrow> m' k = m k)))"
proof -
  have a: "WithPageSize 0 opt = Inr (opt, None)"
    by (simp add: WithPageSize_def)
  have i25: "Itoa 25 = ''25''" by code_simp
  have b: "WithPageSize 25 Query_queryOpts = Inr (\<lparr>URLValues = Some [''pageSize'' \<mapsto> [''25'']]\<rparr>, None)"
    by (simp add: WithPageSize_def Values_Set_def Query_queryOpts_def i25)
  have c: "\<forall>s opt opt' e. option_of s opt = Inr (opt', e) \<and> opt' \<noteq> opt \<longrightarrow> \<not> is_default s"
    by (auto simp: option_of_default)
  have d: "\<forall>specs m. distinct (map parameter specs) \<longrightarrow>
         (\<exists>m'. Query_loop (map option_of specs) \<lparr>URLValues = Some m\<rparr> = Inr \<lparr>URLValues = Some m'\<rparr>
            \<and> (\<forall>s \<in> set specs. sets_parameter s \<longrightarrow> m' (parameter s) = Some [rendered s])
            \<and> (\<forall>k. k \<notin> parameter ` set specs \<longrightarrow> m' k = m k))"
    by (auto simp: Query_loop_allocated foldl_params_set foldl_params_other)
  from a b c d option_of_allocated show ?thesis by blast
qed

theorem query_options_witness:
  "WithPageSize 0 Query_queryOpts = Inr (Query_queryOpts, None)
   \<and> WithPageSize 25 Query_queryOpts = Inr (\<lparr>URLValues = Some [''pageSize'' \<mapsto> [''25'']]\<rparr>, None)
   \<and> \<not> is_default (PageSize 25)
   \<and> Query_loop
        [WithPageSize 25, WithPageNumber 2, WithFilterExpression ''name:eq:Sales'',
         WithSortExpression ''name:asc'', WithPageSize 0]
        Query_queryOpts =
       Inr \<lparr>URLValues = Some [''pageSize'' \<mapsto> [''25''], ''pageNumber'' \<mapsto> [''2''],
              ''filter'' \<mapsto> [''name:eq:Sales''], ''sort'' \<mapsto> [''name:asc'']]\<rparr>"
proof -
  note q = query_options [of Query_queryOpts]
  have sets: "WithPageSize 25 Query_queryOpts \<noteq> Inr (Query_queryOpts, None)"
    using q by (simp add: Query_queryOpts_def)
  obtain opt' where o: "option_of (PageSize 25) Query_queryOpts = Inr (opt', None)" "opt' \<noteq> Query_queryOpts"
    using q by (simp add: Query_queryOpts_def)
  with q have nd: "\<not> is_default (PageSize 25)" by blast
  from q have oa: "option_of s \<lparr>URLValues = Some m\<rparr> =
      Inr (\<lparr>URLValues = Some (if sets_parameter s then m(parameter s \<mapsto> [rendered s]) else m)\<rparr>, None)"
    for s m by blast
  have loop: "Query_loop
        [WithPageSize 25, WithPageNumber 2, WithFilterExpression ''name:eq:Sales'',
         WithSortExpression ''name:asc'', WithPageSize 0]
        \<lparr>URLValues = Some Map.empty\<rparr> =
       Inr \<lparr>URLValues = Some [''pageSize'' \<mapsto> [''25''], ''pageNumber'' \<mapsto> [''2''],
              ''filter'' \<mapsto> [''name:eq:Sales''], ''sort'' \<mapsto> [''name:asc'']]\<rparr>"
    using oa [of "PageSize 25"] oa [of "PageNumber 2"] oa [of "FilterExpression ''name:eq:Sales''"]
      oa [of "SortExpression ''name:asc''"] oa [of "PageSize 0"]
    by (simp add: Itoa_examples)
  from q nd loop show ?thesis by (simp add: Query_queryOpts_def)
qed

text \<open>
  \<^bold>\<open>C10.\<close>  An option function that one of the four constructors produced never returns
  an error that is not \<^verbatim>\<open>nil\<close>; on options whose \<^verbatim>\<open>URLValues\<close> is allocated, as those of
  \<^verbatim>\<open>Query\<close> are, it returns, with \<^verbatim>\<open>nil\<close>, and leaves them allocated.  So for every
  sequence of such options the loop of \<^verbatim>\<open>Query\<close> runs to its end, and from no options
  at all does it reach \<^verbatim>\<open>panic(err)\<close>.
\<close>

theorem query_options_never_fail:
  "(\<forall>s q q' e. option_of s q = Inr (q', e) \<longrightarrow> e = None)
   \<and> (\<forall>s q. URLValues q \<noteq> None \<longrightarrow> (\<exists>q'. option_of s q = Inr (q', None) \<and> URLValues q' \<noteq> None))
   \<and> (\<forall>specs. \<exists>q'. Query_loop (map option_of specs) Query_queryOpts = Inr q')
   \<and> (\<forall>specs q e. Query_loop (map option_of specs) q \<noteq> Inl (PanicError e))"
proof -
  have b: "\<exists>q'. option_of s q = Inr (q', None) \<and> URLValues q' \<noteq> None" if "URLValues q \<noteq> None" for s q
  proof -
    from that obtain m where "q = \<lparr>URLValues = Some m\<rparr>" by (cases q) auto
    then show ?thesis by (simp add: option_of_allocated)
  qed
  have c: "\<exists>q'. Query_loop (map option_of specs) Query_queryOpts = Inr q'" for specs
    by (simp add: Query_queryOpts_def Query_loop_allocated)
  from b c show ?thesis
    by (auto dest: option_of_error_nil simp: Query_loop_no_error_panic)
qed

theorem query_options_never_fail_witness:
  "WithPageSize 25 Query_queryOpts = Inr (\<lparr>URLValues = Some [''pageSize'' \<mapsto> [''25'']]\<rparr>, None)
   \<and> (\<exists>q'. Query_loop [WithSortExpression ''name:asc'', WithPageNumber (- 3), WithPageSize 25]
         Query_queryOpts = Inr q')"
proof -
  note q = query_options_never_fail
  from q obtain q' where
    "Query_loop (map option_of [SortExpression ''name:asc'', PageNumber (- 3), PageSize 25])
       Query_queryOpts = Inr q'"
    by blast
  then have l: "\<exists>q'. Query_loop [WithSortExpression ''name:asc'', WithPageNumber (- 3), WithPageSize 25]
         Query_queryOpts = Inr q'" by simp
  from q obtain q1 where q1: "option_of (PageSize 25) Query_queryOpts = Inr (q1, None)"
    by (metis Query_queryOpts_def option.distinct(1) QueryOptions.select_convs(1))
  have a: "WithPageSize 25 Query_queryOpts = Inr (\<lparr>URLValues = Some [''pageSize'' \<mapsto> [''25'']]\<rparr>, None)"
    using q1 by (simp add: WithPageSize_def Values_Set_def Query_queryOpts_def Itoa_examples)
  from a l show ?thesis by blast
qed

end
